theory Spec2Isabelle
  imports Main
begin

section \<open>Errors of the driver package\<close>

text \<open>
  The error values of package \<open>driver\<close> that the cluster connection and the collection
  operations build or inspect. \<open>InvalidArgumentError{Message}\<close> and
  \<open>ResponseError{Err}\<close> are the struct literals of the source; \<open>ArangoError\<close> carries
  the arguments of \<open>newArangoError(code, errorNum, message)\<close>; the two context errors are
  \<open>context.Canceled\<close> and \<open>context.DeadlineExceeded\<close>; \<open>TransportError\<close> stands for any
  other error a transport returns (connection refused, broken pipe, ...).
\<close>

datatype error =
    ContextCanceled
  | ContextDeadlineExceeded
  | ArangoError int int string
  | InvalidArgumentError string
  | ResponseError error
  | TransportError string

text \<open>
  Modelled from the spec: \<open>driver.WithStack\<close> is not among the source files. The spec
  says errors are wrapped with diagnostic context "without altering their
  classification"; the attached call stack is not modelled, so the error is passed on
  as it is.
\<close>

definition WithStack :: "error \<Rightarrow> error" where
  "WithStack err = err"

text \<open>
  Modelled from the spec: \<open>driver.IsCanceled\<close> is not among the source files. The spec
  classifies as caller cancellation a "context canceled/deadline" error.
\<close>

definition IsCanceled :: "error \<Rightarrow> bool" where
  "IsCanceled err = (err = ContextCanceled \<or> err = ContextDeadlineExceeded)"

text \<open>
  Modelled from the spec: \<open>driver.IsArangoError\<close> is not among the source files. It
  recognises "a structured application-level error response".
\<close>

definition IsArangoError :: "error \<Rightarrow> bool" where
  "IsArangoError err = (case err of ArangoError code num msg \<Rightarrow> True | _ \<Rightarrow> False)"

text \<open>
  Modelled from the spec: \<open>driver.IsInvalidArgument\<close> (used by the tests) is not among
  the source files; it recognises the InvalidArgument kind.
\<close>

definition IsInvalidArgument :: "error \<Rightarrow> bool" where
  "IsInvalidArgument err = (case err of InvalidArgumentError msg \<Rightarrow> True | _ \<Rightarrow> False)"


section \<open>Contexts, requests and connections\<close>

text \<open>
  Times and durations are integers counting nanoseconds, as \<open>time.Duration\<close> does.
  A context is modelled by its deadline only; \<open>None\<close> is "no deadline".
\<close>

record Context =
  Deadline :: "int option"

definition Background :: Context where
  "Background = \<lparr>Deadline = None\<rparr>"

definition maxDuration :: int where
  "maxDuration = 2 ^ 63 - 1"

definition minDuration :: int where
  "minDuration = - (2 ^ 63)"

text \<open>\<open>deadline.Sub(now)\<close>: the difference, saturated to the range of a Duration.\<close>

definition time_Sub :: "int \<Rightarrow> int \<Rightarrow> int" where
  "time_Sub t u = max minDuration (min maxDuration (t - u))"

text \<open>
  \<open>context.WithTimeout(parent, d)\<close> at clock reading \<open>now\<close>: the deadline is
  \<open>now + d\<close> unless the parent's own deadline is earlier.
\<close>

definition WithTimeout :: "Context \<Rightarrow> int \<Rightarrow> int \<Rightarrow> Context" where
  "WithTimeout parent now d =
     parent\<lparr>Deadline := Some (case Deadline parent of
                                None \<Rightarrow> now + d
                              | Some p \<Rightarrow> min p (now + d))\<rparr>"

text \<open>
  A request is known to the cluster connection only through \<open>req.Written()\<close>; whatever
  else the transport keeps in it lives in the record's extension.
\<close>

record request =
  written :: bool

text \<open>
  The interface \<open>driver.Connection\<close>. \<open>Do\<close> receives the request by reference and may
  set its written flag, so the model returns the request together with the result. Its
  context may be \<open>nil\<close>, which is \<open>None\<close>.
\<close>

record ('m, 'r, 'v) Connection =
  NewRequest :: "string \<Rightarrow> string \<Rightarrow> error + 'm request_scheme"
  Do :: "Context option \<Rightarrow> 'm request_scheme \<Rightarrow> (error + 'r) \<times> 'm request_scheme"
  Unmarshal :: "string \<Rightarrow> error + 'v"


section \<open>The cluster connection (cluster/cluster.go)\<close>

definition defaultTimeout_const :: int where
  "defaultTimeout_const = 60 * 1000000000"

record ConnectionConfig =
  DefaultTimeout :: int

text \<open>
  The struct \<open>clusterConnection\<close>. The mutex is left out: the model runs one call at a
  time.
\<close>

record ('m, 'r, 'v) clusterConnection =
  servers :: "('m, 'r, 'v) Connection list"
  current :: nat
  defaultTimeout :: int

definition NewConnection ::
  "ConnectionConfig \<Rightarrow> ('m, 'r, 'v) Connection list \<Rightarrow> error + ('m, 'r, 'v) clusterConnection" where
  "NewConnection config srvs =
     (if length srvs = 0 then
        Inl (WithStack (InvalidArgumentError ''Must provide at least 1 server''))
      else
        let config = (if DefaultTimeout config = 0
                      then config\<lparr>DefaultTimeout := defaultTimeout_const\<rparr> else config)
        in Inr \<lparr>servers = srvs, current = 0, defaultTimeout = DefaultTimeout config\<rparr>)"

text \<open>
  \<open>c.servers[0]\<close>, \<open>c.servers[c.current]\<close> and \<open>% len(c.servers)\<close> panic when the
  index is out of range or the divisor is zero; \<open>None\<close> is that panic.
\<close>

definition clusterConnection_NewRequest ::
  "('m, 'r, 'v) clusterConnection \<Rightarrow> string \<Rightarrow> string \<Rightarrow> (error + 'm request_scheme) option" where
  "clusterConnection_NewRequest c meth pth =
     (case servers c of
        [] \<Rightarrow> None
      | s0 # rest \<Rightarrow> Some (NewRequest s0 meth pth))"

definition clusterConnection_Unmarshal ::
  "('m, 'r, 'v) clusterConnection \<Rightarrow> string \<Rightarrow> (error + 'v) option" where
  "clusterConnection_Unmarshal c data =
     (case servers c of
        [] \<Rightarrow> None
      | s0 # rest \<Rightarrow>
          Some (case Unmarshal s0 data of
                  Inl err \<Rightarrow> Inl (WithStack err)
                | Inr v \<Rightarrow> Inr v))"

definition getCurrentServer ::
  "('m, 'r, 'v) clusterConnection \<Rightarrow> ('m, 'r, 'v) Connection option" where
  "getCurrentServer c =
     (if current c < length (servers c) then Some (servers c ! current c) else None)"

definition getNextServer ::
  "('m, 'r, 'v) clusterConnection \<Rightarrow>
     (('m, 'r, 'v) clusterConnection \<times> ('m, 'r, 'v) Connection) option" where
  "getNextServer c =
     (if length (servers c) = 0 then None
      else
        let c' = c\<lparr>current := (current c + 1) mod length (servers c)\<rparr>
        in Some (c', servers c' ! current c'))"

text \<open>
  \<open>timeoutDivider := math.Max(1.0, math.Min(3.0, float64(len(c.servers))))\<close> and
  \<open>time.Duration(float64(timeout)/timeoutDivider)\<close>. The divider is 1, 2 or 3, which a
  float64 holds exactly; the conversion back to a Duration truncates towards zero. The
  model computes the quotient on integers, which agrees with the float64 computation
  while the timeout is below \<open>2 ^ 52\<close> nanoseconds (about 52 days) in absolute value.
\<close>

definition timeoutDivider :: "nat \<Rightarrow> int" where
  "timeoutDivider n = max 1 (min 3 (int n))"

definition serverTimeout :: "int \<Rightarrow> int \<Rightarrow> int" where
  "serverTimeout tmo dv = (if tmo < 0 then - ((- tmo) div dv) else tmo div dv)"

text \<open>
  One entry of the trace of a call of \<open>Do\<close>: which server \<open>s.Do(serverCtx, req)\<close> was
  sent to, the duration given to \<open>context.WithTimeout\<close>, what the server returned and
  what \<open>req.Written()\<close> was afterwards. The trace is not in the source; it records the
  calls the source makes, in order.
\<close>

record 'r attempt =
  server_index :: nat
  slice :: int
  outcome :: "error + 'r"
  wrote :: bool

text \<open>
  The \<open>for\<close> loop of \<open>Do\<close>. Its state is the connection (for the cursor), the request,
  the attempt counter and the server \<open>s\<close>; \<open>tr\<close> is the trace so far. The clock is read
  once (\<open>now\<close>): the time that passes between attempts is not modelled.
\<close>

function Do_loop ::
  "('m, 'r, 'v) clusterConnection \<Rightarrow> Context \<Rightarrow> int \<Rightarrow> int \<Rightarrow> int \<Rightarrow> 'm request_scheme \<Rightarrow> nat \<Rightarrow>
     ('m, 'r, 'v) Connection \<Rightarrow> 'r attempt list \<Rightarrow>
     ((error + 'r) \<times> ('m, 'r, 'v) clusterConnection \<times> 'm request_scheme \<times> 'r attempt list) option" where
  "Do_loop c ctx now tmo dv req attempt s tr =
     (let serverCtx = WithTimeout ctx now (serverTimeout tmo dv) in
      case Do s (Some serverCtx) req of (res, req') \<Rightarrow>
        let tr' = tr @ [\<lparr>server_index = current c, slice = serverTimeout tmo dv,
                         outcome = res, wrote = written req'\<rparr>] in
        (case res of
           Inr resp \<Rightarrow> Some (Inr resp, c, req', tr')
         | Inl err \<Rightarrow>
             if IsCanceled err then Some (Inl (WithStack err), c, req', tr')
             else if written req' then
               (if IsArangoError err then Some (Inl (WithStack err), c, req', tr')
                else Some (Inl (WithStack (ResponseError err)), c, req', tr'))
             else
               let attempt' = attempt + 1 in
               if attempt' > length (servers c) then Some (Inl (WithStack err), c, req', tr')
               else
                 (case getNextServer c of
                    None \<Rightarrow> None
                  | Some (c', s') \<Rightarrow> Do_loop c' ctx now tmo dv req' attempt' s' tr')))"
  by pat_completeness auto
termination
  by (relation "measure (\<lambda>(c, ctx, now, tmo, dv, req, attempt, s, tr).
                           Suc (length (servers c)) - attempt)")
     (auto simp: getNextServer_def Let_def split: if_splits)

text \<open>
  The block "Timeout management" of \<open>Do\<close>: the time left until the deadline of the
  context, or the default timeout when the context has none.
\<close>

definition Do_timeout :: "('m, 'r, 'v) clusterConnection \<Rightarrow> Context \<Rightarrow> int \<Rightarrow> int" where
  "Do_timeout c ctx now =
     (case Deadline ctx of
        Some deadline \<Rightarrow> time_Sub deadline now
      | None \<Rightarrow> defaultTimeout c)"

text \<open>\<open>ctx == nil\<close> is \<open>None\<close>.\<close>

definition clusterConnection_Do ::
  "('m, 'r, 'v) clusterConnection \<Rightarrow> Context option \<Rightarrow> int \<Rightarrow> 'm request_scheme \<Rightarrow>
     ((error + 'r) \<times> ('m, 'r, 'v) clusterConnection \<times> 'm request_scheme \<times> 'r attempt list) option" where
  "clusterConnection_Do c ctx0 now req =
     (let ctx = (case ctx0 of None \<Rightarrow> Background | Some x \<Rightarrow> x);
          tmo = Do_timeout c ctx now;
          dv = timeoutDivider (length (servers c))
      in case getCurrentServer c of
           None \<Rightarrow> None
         | Some s \<Rightarrow> Do_loop c ctx now tmo dv req 1 s [])"


section \<open>Documents, responses and per-call settings\<close>

text \<open>
  \<open>DocumentMeta\<close>: key, identifier and revision of a document.
  \<open>DocumentMeta0\<close> is the zero value \<open>DocumentMeta{}\<close>.
\<close>

record DocumentMeta =
  Key :: string
  ID :: string
  Rev :: string

definition DocumentMeta0 :: DocumentMeta where
  "DocumentMeta0 = \<lparr>Key = [], ID = [], Rev = []\<rparr>"

text \<open>
  An argument of type \<open>interface{}\<close> (a document, an update, a slice of documents, a
  destination for a returned document): \<open>nil\<close>, one value, or an array or slice.
\<close>

datatype 'd val = NilValue | Value 'd | Values "'d list"

text \<open>
  Modelled from the spec: the implementation of the interface \<open>Response\<close> is not among
  the source files. A response "exposes a status code, a method to assert the status
  is one of an accepted set (else produces a decoded application error) ... and a
  method to parse the body (or a named sub-field of it) into a typed destination,
  singular or as an ordered sequence of per-item sub-responses". A response is given by
  what these methods return: \<open>errorBody\<close> is the error \<open>CheckStatus\<close> decodes from the
  body, \<open>metaBody\<close> is \<open>ParseBody("", &meta)\<close>, \<open>fieldBody f\<close> is \<open>ParseBody(f, dest)\<close>
  for a document destination, \<open>arrayBody\<close> is \<open>ParseArrayBody()\<close>.
\<close>

datatype 'd Response =
  Response (StatusCode: int) (errorBody: error) (metaBody: "error + DocumentMeta")
    (fieldBody: "string \<Rightarrow> error + 'd") (arrayBody: "error + 'd Response list")

definition CheckStatus :: "'d Response \<Rightarrow> int list \<Rightarrow> error option" where
  "CheckStatus resp validStatusCodes =
     (if StatusCode resp \<in> set validStatusCodes then None else Some (errorBody resp))"

text \<open>
  The struct \<open>contextSettings\<close>, as far as the collection reads it. \<open>ReturnOld\<close> and
  \<open>ReturnNew\<close> are the destinations given by the caller (\<open>NilValue\<close> when not asked
  for); \<open>Revisions\<close> is \<open>None\<close> for a nil slice.
\<close>

record 'd contextSettings =
  Silent :: bool
  ReturnOld :: "'d val"
  ReturnNew :: "'d val"
  Revisions :: "string list option"

text \<open>
  What the collection calls and the source files do not hold, taken as parameters:
  \<open>path.Join\<close>, the name \<open>reflect.ValueOf(x).Kind()\<close> prints as, the methods
  \<open>SetBody\<close> and \<open>SetBodyArray\<close> of a request, \<open>applyContextSettings\<close> (which reads
  the settings off the context and writes them into the request) and the method
  \<open>okStatus\<close> of the settings.
\<close>

record ('m, 'd) driver =
  path_Join :: "string list \<Rightarrow> string"
  Kind_String :: "'d val \<Rightarrow> string"
  SetBody :: "'m request_scheme \<Rightarrow> 'd val \<Rightarrow> error + 'm request_scheme"
  SetBodyArray :: "'m request_scheme \<Rightarrow> 'd val \<Rightarrow> (string \<times> string) list list option \<Rightarrow>
                     error + 'm request_scheme"
  applyContextSettings :: "Context option \<Rightarrow> 'm request_scheme \<Rightarrow>
                             'd contextSettings \<times> 'm request_scheme"
  okStatus :: "'d contextSettings \<Rightarrow> int \<Rightarrow> int \<Rightarrow> int"

text \<open>\<open>%d\<close> of \<open>fmt.Sprintf\<close> on a length.\<close>

fun itoa :: "nat \<Rightarrow> string" where
  "itoa n = (if n < 10 then [''0123456789'' ! n]
             else itoa (n div 10) @ [''0123456789'' ! (n mod 10)])"

text \<open>
  Modelled from the spec: \<open>validateKey\<close> is not among the source files; "a blank key
  fails with InvalidArgument".
\<close>

definition validateKey :: "string \<Rightarrow> error option" where
  "validateKey key =
     (if key = [] then Some (WithStack (InvalidArgumentError ''key is empty'')) else None)"


section \<open>The collection (collection document operations)\<close>

record ('m, 'd, 'v) database =
  db_name :: string
  db_conn :: "('m, 'd Response, 'v) Connection"

record ('m, 'd, 'v) collection =
  name :: string
  db :: "('m, 'd, 'v) database"
  conn :: "('m, 'd Response, 'v) Connection"

definition database_relPath :: "('m, 'd) driver \<Rightarrow> ('m, 'd, 'v) database \<Rightarrow> string" where
  "database_relPath drv d = path_Join drv [''_db'', db_name d]"

definition relPath :: "('m, 'd) driver \<Rightarrow> ('m, 'd, 'v) collection \<Rightarrow> string \<Rightarrow> string" where
  "relPath drv c apiName = path_Join drv [database_relPath drv (db c), ''_api'', apiName, name c]"

text \<open>
  A singular operation returns a \<open>DocumentMeta\<close> and an error (\<open>None\<close> is \<open>nil\<close>); both
  can be set. The model adds what the operation did besides: the requests it passed to
  \<open>c.conn.Do\<close>, in order, and the documents it stored through the destinations
  (\<open>result\<close>, \<open>ReturnOld\<close>, \<open>ReturnNew\<close>), each with the field of the body it came from.
\<close>

type_synonym ('m, 'd) single =
  "(DocumentMeta \<times> error option) \<times> 'm request_scheme list \<times> (string \<times> 'd) list"

text \<open>
  The block \<open>if dest != nil { if err := resp.ParseBody(field, dest); err != nil ... }\<close>
  of the singular operations: the error, or the documents stored.
\<close>

definition parseReturn :: "'d Response \<Rightarrow> string \<Rightarrow> 'd val \<Rightarrow> error + (string \<times> 'd) list" where
  "parseReturn resp field dest =
     (if dest \<noteq> NilValue then
        (case fieldBody resp field of
           Inl err \<Rightarrow> Inl err
         | Inr d \<Rightarrow> Inr [(field, d)])
      else Inr [])"

definition ReadDocument ::
  "('m, 'd) driver \<Rightarrow> ('m, 'd, 'v) collection \<Rightarrow> Context option \<Rightarrow> string \<Rightarrow> 'd val \<Rightarrow> ('m, 'd) single" where
  "ReadDocument drv c ctx key result =
     (case validateKey key of
        Some err \<Rightarrow> ((DocumentMeta0, Some (WithStack err)), [], [])
      | None \<Rightarrow>
     (case NewRequest (conn c) ''GET'' (path_Join drv [relPath drv c ''document'', key]) of
        Inl err \<Rightarrow> ((DocumentMeta0, Some (WithStack err)), [], [])
      | Inr req \<Rightarrow>
     (case Do (conn c) ctx req of (res, req') \<Rightarrow>
     (case res of
        Inl err \<Rightarrow> ((DocumentMeta0, Some (WithStack err)), [req], [])
      | Inr resp \<Rightarrow>
     (case CheckStatus resp [200] of
        Some err \<Rightarrow> ((DocumentMeta0, Some (WithStack err)), [req], [])
      | None \<Rightarrow>
     (case metaBody resp of
        Inl err \<Rightarrow> ((DocumentMeta0, Some (WithStack err)), [req], [])
      | Inr meta \<Rightarrow>
     (case parseReturn resp [] result of
        Inl err \<Rightarrow> ((meta, Some (WithStack err)), [req], [])
      | Inr st \<Rightarrow> ((meta, None), [req], st))))))))"

definition CreateDocument ::
  "('m, 'd) driver \<Rightarrow> ('m, 'd, 'v) collection \<Rightarrow> Context option \<Rightarrow> 'd val \<Rightarrow> ('m, 'd) single" where
  "CreateDocument drv c ctx document =
     (if document = NilValue then
        ((DocumentMeta0, Some (WithStack (InvalidArgumentError ''document nil''))), [], [])
      else
     (case NewRequest (conn c) ''POST'' (relPath drv c ''document'') of
        Inl err \<Rightarrow> ((DocumentMeta0, Some (WithStack err)), [], [])
      | Inr req \<Rightarrow>
     (case SetBody drv req document of
        Inl err \<Rightarrow> ((DocumentMeta0, Some (WithStack err)), [], [])
      | Inr req \<Rightarrow>
     (case applyContextSettings drv ctx req of (cs, req) \<Rightarrow>
     (case Do (conn c) ctx req of (res, req') \<Rightarrow>
     (case res of
        Inl err \<Rightarrow> ((DocumentMeta0, Some (WithStack err)), [req], [])
      | Inr resp \<Rightarrow>
     (case CheckStatus resp [okStatus drv cs 201 202] of
        Some err \<Rightarrow> ((DocumentMeta0, Some (WithStack err)), [req], [])
      | None \<Rightarrow>
     if Silent cs then ((DocumentMeta0, None), [req], [])
     else
     (case metaBody resp of
        Inl err \<Rightarrow> ((DocumentMeta0, Some (WithStack err)), [req], [])
      | Inr meta \<Rightarrow>
     (case parseReturn resp ''new'' (ReturnNew cs) of
        Inl err \<Rightarrow> ((meta, Some (WithStack err)), [req], [])
      | Inr st \<Rightarrow> ((meta, None), [req], st))))))))))"

definition UpdateDocument ::
  "('m, 'd) driver \<Rightarrow> ('m, 'd, 'v) collection \<Rightarrow> Context option \<Rightarrow> string \<Rightarrow> 'd val \<Rightarrow> ('m, 'd) single" where
  "UpdateDocument drv c ctx key update =
     (case validateKey key of
        Some err \<Rightarrow> ((DocumentMeta0, Some (WithStack err)), [], [])
      | None \<Rightarrow>
     if update = NilValue then
       ((DocumentMeta0, Some (WithStack (InvalidArgumentError ''update nil''))), [], [])
     else
     (case NewRequest (conn c) ''PATCH'' (path_Join drv [relPath drv c ''document'', key]) of
        Inl err \<Rightarrow> ((DocumentMeta0, Some (WithStack err)), [], [])
      | Inr req \<Rightarrow>
     (case SetBody drv req update of
        Inl err \<Rightarrow> ((DocumentMeta0, Some (WithStack err)), [], [])
      | Inr req \<Rightarrow>
     (case applyContextSettings drv ctx req of (cs, req) \<Rightarrow>
     (case Do (conn c) ctx req of (res, req') \<Rightarrow>
     (case res of
        Inl err \<Rightarrow> ((DocumentMeta0, Some (WithStack err)), [req], [])
      | Inr resp \<Rightarrow>
     (case CheckStatus resp [okStatus drv cs 201 202] of
        Some err \<Rightarrow> ((DocumentMeta0, Some (WithStack err)), [req], [])
      | None \<Rightarrow>
     if Silent cs then ((DocumentMeta0, None), [req], [])
     else
     (case metaBody resp of
        Inl err \<Rightarrow> ((DocumentMeta0, Some (WithStack err)), [req], [])
      | Inr meta \<Rightarrow>
     (case parseReturn resp ''old'' (ReturnOld cs) of
        Inl err \<Rightarrow> ((meta, Some (WithStack err)), [req], [])
      | Inr st1 \<Rightarrow>
     (case parseReturn resp ''new'' (ReturnNew cs) of
        Inl err \<Rightarrow> ((meta, Some (WithStack err)), [req], st1)
      | Inr st2 \<Rightarrow> ((meta, None), [req], st1 @ st2)))))))))))"

definition ReplaceDocument ::
  "('m, 'd) driver \<Rightarrow> ('m, 'd, 'v) collection \<Rightarrow> Context option \<Rightarrow> string \<Rightarrow> 'd val \<Rightarrow> ('m, 'd) single" where
  "ReplaceDocument drv c ctx key document =
     (case validateKey key of
        Some err \<Rightarrow> ((DocumentMeta0, Some (WithStack err)), [], [])
      | None \<Rightarrow>
     if document = NilValue then
       ((DocumentMeta0, Some (WithStack (InvalidArgumentError ''document nil''))), [], [])
     else
     (case NewRequest (conn c) ''PUT'' (path_Join drv [relPath drv c ''document'', key]) of
        Inl err \<Rightarrow> ((DocumentMeta0, Some (WithStack err)), [], [])
      | Inr req \<Rightarrow>
     (case SetBody drv req document of
        Inl err \<Rightarrow> ((DocumentMeta0, Some (WithStack err)), [], [])
      | Inr req \<Rightarrow>
     (case applyContextSettings drv ctx req of (cs, req) \<Rightarrow>
     (case Do (conn c) ctx req of (res, req') \<Rightarrow>
     (case res of
        Inl err \<Rightarrow> ((DocumentMeta0, Some (WithStack err)), [req], [])
      | Inr resp \<Rightarrow>
     (case CheckStatus resp [okStatus drv cs 201 202] of
        Some err \<Rightarrow> ((DocumentMeta0, Some (WithStack err)), [req], [])
      | None \<Rightarrow>
     if Silent cs then ((DocumentMeta0, None), [req], [])
     else
     (case metaBody resp of
        Inl err \<Rightarrow> ((DocumentMeta0, Some (WithStack err)), [req], [])
      | Inr meta \<Rightarrow>
     (case parseReturn resp ''old'' (ReturnOld cs) of
        Inl err \<Rightarrow> ((meta, Some (WithStack err)), [req], [])
      | Inr st1 \<Rightarrow>
     (case parseReturn resp ''new'' (ReturnNew cs) of
        Inl err \<Rightarrow> ((meta, Some (WithStack err)), [req], st1)
      | Inr st2 \<Rightarrow> ((meta, None), [req], st1 @ st2)))))))))))"

definition RemoveDocument ::
  "('m, 'd) driver \<Rightarrow> ('m, 'd, 'v) collection \<Rightarrow> Context option \<Rightarrow> string \<Rightarrow> ('m, 'd) single" where
  "RemoveDocument drv c ctx key =
     (case validateKey key of
        Some err \<Rightarrow> ((DocumentMeta0, Some (WithStack err)), [], [])
      | None \<Rightarrow>
     (case NewRequest (conn c) ''DELETE'' (path_Join drv [relPath drv c ''document'', key]) of
        Inl err \<Rightarrow> ((DocumentMeta0, Some (WithStack err)), [], [])
      | Inr req \<Rightarrow>
     (case applyContextSettings drv ctx req of (cs, req) \<Rightarrow>
     (case Do (conn c) ctx req of (res, req') \<Rightarrow>
     (case res of
        Inl err \<Rightarrow> ((DocumentMeta0, Some (WithStack err)), [req], [])
      | Inr resp \<Rightarrow>
     (case CheckStatus resp [okStatus drv cs 200 202] of
        Some err \<Rightarrow> ((DocumentMeta0, Some (WithStack err)), [req], [])
      | None \<Rightarrow>
     if Silent cs then ((DocumentMeta0, None), [req], [])
     else
     (case metaBody resp of
        Inl err \<Rightarrow> ((DocumentMeta0, Some (WithStack err)), [req], [])
      | Inr meta \<Rightarrow>
     (case parseReturn resp ''old'' (ReturnOld cs) of
        Inl err \<Rightarrow> ((meta, Some (WithStack err)), [req], [])
      | Inr st \<Rightarrow> ((meta, None), [req], st)))))))))"

text \<open>
  A batched operation returns the slice of metas, the slice of errors (\<open>None\<close> is a
  \<open>nil\<close> entry) and an error; a \<open>nil\<close> slice is the empty list. The model adds the
  requests passed to \<open>c.conn.Do\<close> and the documents stored through \<open>ReturnOld\<close> and
  \<open>ReturnNew\<close>, each with its field and its index in the destination slice. The whole
  is \<open>None\<close> when the operation panics (an index out of range, or
  \<open>reflect.Value.Index\<close> on something that is not a slice).
\<close>

type_synonym ('m, 'd) batch =
  "((DocumentMeta list \<times> error option list \<times> error option) \<times>
    'm request_scheme list \<times> (string \<times> nat \<times> 'd) list) option"

text \<open>A slice that may be \<open>nil\<close>: \<open>len\<close> and \<open>range\<close> see a \<open>nil\<close> slice as empty.\<close>

definition elems :: "'a list option \<Rightarrow> 'a list" where
  "elems xs = (case xs of None \<Rightarrow> [] | Some ys \<Rightarrow> ys)"

text \<open>\<open>createMergeArray\<close>; a map is given by its entries.\<close>

definition createMergeArray ::
  "string list option \<Rightarrow> string list option \<Rightarrow> error + (string \<times> string) list list option" where
  "createMergeArray keys revs =
     (if keys = None \<and> revs = None then Inr None
      else if revs = None then Inr (Some (map (\<lambda>k. [(''_key'', k)]) (elems keys)))
      else if keys = None then Inr (Some (map (\<lambda>r. [(''_rev'', r)]) (elems revs)))
      else if length (elems keys) \<noteq> length (elems revs) then
        Inl (WithStack (InvalidArgumentError
               (''#keys must be equal to #revs, got '' @ itoa (length (elems keys)) @ '', '' @
                itoa (length (elems revs)))))
      else Inr (Some (map (\<lambda>(k, r). [(''_key'', k), (''_rev'', r)])
                        (zip (elems keys) (elems revs)))))"

text \<open>
  One of the two blocks "Parse returnOld/returnNew (if needed)" of
  \<open>parseResponseArray\<close> at position \<open>i\<close>: nothing when the destination is \<open>nil\<close>;
  otherwise \<open>Index(i)\<close> of the destination, which panics unless it is a slice longer
  than \<open>i\<close>, and \<open>ParseBody(field, entry)\<close>, which gives an error or stores a document.
\<close>

definition parseEntry ::
  "'d Response \<Rightarrow> string \<Rightarrow> 'd val \<Rightarrow> nat \<Rightarrow> (error option \<times> (string \<times> nat \<times> 'd) list) option" where
  "parseEntry resp field dest i =
     (case dest of
        NilValue \<Rightarrow> Some (None, [])
      | Value d \<Rightarrow> None
      | Values ds \<Rightarrow>
          if i < length ds then
            (case fieldBody resp field of
               Inl err \<Rightarrow> Some (Some err, [])
             | Inr d \<Rightarrow> Some (None, [(field, i, d)]))
          else None)"

text \<open>
  The body of the loop \<open>for i := 0; i < count; i++\<close> of \<open>parseResponseArray\<close> at
  position \<open>i\<close>, for the response \<open>resp = resps[i]\<close>: the slices \<open>metas\<close> and \<open>errs\<close>
  after it, and the documents stored so far. \<open>var meta DocumentMeta\<close> is not assigned
  to \<open>metas[i]\<close> on an error, so \<open>metas[i]\<close> keeps what \<open>make\<close> put there.
\<close>

definition parseResponseArray_body ::
  "'d Response \<Rightarrow> 'd contextSettings \<Rightarrow> nat \<Rightarrow> DocumentMeta list \<Rightarrow> error option list \<Rightarrow>
     (string \<times> nat \<times> 'd) list \<Rightarrow>
     (DocumentMeta list \<times> error option list \<times> (string \<times> nat \<times> 'd) list) option" where
  "parseResponseArray_body resp cs i metas errs st =
     (case CheckStatus resp [200, 201, 202] of
        Some err \<Rightarrow> Some (metas, errs[i := Some err], st)
      | None \<Rightarrow>
          (case metaBody resp of
             Inl err \<Rightarrow> Some (metas, errs[i := Some err], st)
           | Inr meta \<Rightarrow>
               let metas = metas[i := meta] in
               (case parseEntry resp ''old'' (ReturnOld cs) i of
                  None \<Rightarrow> None
                | Some (e1, st1) \<Rightarrow>
                    let errs = (case e1 of Some err \<Rightarrow> errs[i := Some err] | None \<Rightarrow> errs) in
                    (case parseEntry resp ''new'' (ReturnNew cs) i of
                       None \<Rightarrow> None
                     | Some (e2, st2) \<Rightarrow>
                         let errs = (case e2 of Some err \<Rightarrow> errs[i := Some err]
                                     | None \<Rightarrow> errs)
                         in Some (metas, errs, st @ st1 @ st2)))))"

text \<open>
  The loop itself, from position \<open>i\<close> on. \<open>resps[i]\<close> panics when the response array
  is shorter than \<open>count\<close>.
\<close>

function parseResponseArray_loop ::
  "'d Response list \<Rightarrow> nat \<Rightarrow> 'd contextSettings \<Rightarrow> nat \<Rightarrow> DocumentMeta list \<Rightarrow>
     error option list \<Rightarrow> (string \<times> nat \<times> 'd) list \<Rightarrow>
     ((DocumentMeta list \<times> error option list \<times> error option) \<times> (string \<times> nat \<times> 'd) list) option" where
  "parseResponseArray_loop resps count cs i metas errs st =
     (if i < count then
        if i < length resps then
          (case parseResponseArray_body (resps ! i) cs i metas errs st of
             None \<Rightarrow> None
           | Some (metas', errs', st') \<Rightarrow>
               parseResponseArray_loop resps count cs (i + 1) metas' errs' st')
        else None
      else Some ((metas, errs, None), st))"
  by pat_completeness auto
termination
  by (relation "measure (\<lambda>(resps, count, cs, i, metas, errs, st). count - i)") auto

definition parseResponseArray ::
  "'d Response \<Rightarrow> nat \<Rightarrow> 'd contextSettings \<Rightarrow>
     ((DocumentMeta list \<times> error option list \<times> error option) \<times> (string \<times> nat \<times> 'd) list) option" where
  "parseResponseArray resp count cs =
     (case arrayBody resp of
        Inl err \<Rightarrow> Some (([], [], Some (WithStack err)), [])
      | Inr resps \<Rightarrow>
          parseResponseArray_loop resps count cs 0
            (replicate count DocumentMeta0) (replicate count None) [])"

text \<open>
  Modelled from the spec: \<open>newArangoError\<close> is not among the source files; it builds
  the structured application-level error from a status code, an error number and a
  message.
\<close>

definition newArangoError :: "int \<Rightarrow> int \<Rightarrow> string \<Rightarrow> error" where
  "newArangoError code errorNum msg = ArangoError code errorNum msg"

definition CreateDocuments ::
  "('m, 'd) driver \<Rightarrow> ('m, 'd, 'v) collection \<Rightarrow> Context option \<Rightarrow> 'd val \<Rightarrow> ('m, 'd) batch" where
  "CreateDocuments drv c ctx documents =
     (case documents of
        Values ds \<Rightarrow>
          let documentCount = length ds in
          (case NewRequest (conn c) ''POST'' (relPath drv c ''document'') of
             Inl err \<Rightarrow> Some (([], [], Some (WithStack err)), [], [])
           | Inr req \<Rightarrow>
          (case SetBody drv req documents of
             Inl err \<Rightarrow> Some (([], [], Some (WithStack err)), [], [])
           | Inr req \<Rightarrow>
          (case applyContextSettings drv ctx req of (cs, req) \<Rightarrow>
          (case Do (conn c) ctx req of (res, req') \<Rightarrow>
          (case res of
             Inl err \<Rightarrow> Some (([], [], Some (WithStack err)), [req], [])
           | Inr resp \<Rightarrow>
          if StatusCode resp \<noteq> okStatus drv cs 201 202 then
            Some (([], [], Some (WithStack (newArangoError (StatusCode resp) 0 ''Invalid status''))),
                  [req], [])
          else if Silent cs then Some (([], [], None), [req], [])
          else
          (case parseResponseArray resp documentCount cs of
             None \<Rightarrow> None
           | Some ((metas, errs, Some err), st) \<Rightarrow> Some (([], [], Some (WithStack err)), [req], st)
           | Some ((metas, errs, None), st) \<Rightarrow> Some ((metas, errs, None), [req], st)))))))
      | _ \<Rightarrow>
          Some (([], [], Some (WithStack (InvalidArgumentError
                  (''documents data must be of kind Array, got '' @ Kind_String drv documents)))),
                [], []))"

text \<open>
  The loop \<open>for _, key := range keys\<close> of \<open>UpdateDocuments\<close>: the error of the first
  key that \<open>validateKey\<close> rejects.
\<close>

fun validateKeys :: "string list \<Rightarrow> error option" where
  "validateKeys [] = None"
| "validateKeys (key # keys) =
     (case validateKey key of
        Some err \<Rightarrow> Some err
      | None \<Rightarrow> validateKeys keys)"

definition UpdateDocuments ::
  "('m, 'd) driver \<Rightarrow> ('m, 'd, 'v) collection \<Rightarrow> Context option \<Rightarrow> string list option \<Rightarrow> 'd val \<Rightarrow>
     ('m, 'd) batch" where
  "UpdateDocuments drv c ctx keys updates =
     (case updates of
        Values us \<Rightarrow>
          let updateCount = length us in
          if length (elems keys) \<noteq> updateCount then
            Some (([], [], Some (WithStack (InvalidArgumentError
                    (''expected '' @ itoa updateCount @ '' keys, got %!s(int='' @
                     itoa (length (elems keys)) @ '')'')))),
                  [], [])
          else
          (case validateKeys (elems keys) of
             Some err \<Rightarrow> Some (([], [], Some (WithStack err)), [], [])
           | None \<Rightarrow>
          (case NewRequest (conn c) ''PATCH'' (relPath drv c ''document'') of
             Inl err \<Rightarrow> Some (([], [], Some (WithStack err)), [], [])
           | Inr req \<Rightarrow>
          (case applyContextSettings drv ctx req of (cs, req) \<Rightarrow>
          (case createMergeArray keys (Revisions cs) of
             Inl err \<Rightarrow> Some (([], [], Some (WithStack err)), [], [])
           | Inr mergeArray \<Rightarrow>
          (case SetBodyArray drv req updates mergeArray of
             Inl err \<Rightarrow> Some (([], [], Some (WithStack err)), [], [])
           | Inr req \<Rightarrow>
          (case Do (conn c) ctx req of (res, req') \<Rightarrow>
          (case res of
             Inl err \<Rightarrow> Some (([], [], Some (WithStack err)), [req], [])
           | Inr resp \<Rightarrow>
          if StatusCode resp \<noteq> okStatus drv cs 201 202 then
            Some (([], [], Some (WithStack (newArangoError (StatusCode resp) 0 ''Invalid status''))),
                  [req], [])
          else if Silent cs then Some (([], [], None), [req], [])
          else
          (case parseResponseArray resp updateCount cs of
             None \<Rightarrow> None
           | Some ((metas, errs, Some err), st) \<Rightarrow> Some (([], [], Some (WithStack err)), [req], st)
           | Some ((metas, errs, None), st) \<Rightarrow> Some ((metas, errs, None), [req], st)))))))))
      | _ \<Rightarrow>
          Some (([], [], Some (WithStack (InvalidArgumentError
                  (''updates data must be of kind Array, got '' @ Kind_String drv updates)))),
                [], []))"


section \<open>Reading the result of a batched call\<close>

text \<open>
  A destination that \<open>parseResponseArray\<close> can index at every position below \<open>n\<close>:
  \<open>nil\<close> (not asked for), or a slice of at least \<open>n\<close> elements.
\<close>

definition indexable :: "'d val \<Rightarrow> nat \<Rightarrow> bool" where
  "indexable dest n = (case dest of NilValue \<Rightarrow> True | Value d \<Rightarrow> False | Values ds \<Rightarrow> n \<le> length ds)"

text \<open>
  The error of decoding a field of a response into a destination: none when the
  destination is \<open>nil\<close> or the field decodes.
\<close>

definition entry_error :: "'d Response \<Rightarrow> string \<Rightarrow> 'd val \<Rightarrow> error option" where
  "entry_error resp field dest =
     (if dest = NilValue then None
      else case fieldBody resp field of Inl err \<Rightarrow> Some err | Inr d \<Rightarrow> None)"

text \<open>
  What the body of the loop of \<open>parseResponseArray\<close> leaves at one position: \<open>m0\<close> and
  \<open>e0\<close> are the entries of \<open>metas\<close> and \<open>errs\<close> before, \<open>m\<close> and \<open>e\<close> the entries
  after.
\<close>

definition item_ok ::
  "'d contextSettings \<Rightarrow> 'd Response \<Rightarrow> DocumentMeta \<Rightarrow> error option \<Rightarrow> DocumentMeta \<Rightarrow> error option \<Rightarrow> bool" where
  "item_ok cs resp m0 e0 m e =
     (case CheckStatus resp [200, 201, 202] of
        Some err \<Rightarrow> e = Some err \<and> m = m0
      | None \<Rightarrow>
          (case metaBody resp of
             Inl err \<Rightarrow> e = Some err \<and> m = m0
           | Inr meta \<Rightarrow>
               m = meta \<and>
               e = (case entry_error resp ''new'' (ReturnNew cs) of
                      Some err \<Rightarrow> Some err
                    | None \<Rightarrow>
                        (case entry_error resp ''old'' (ReturnOld cs) of
                           Some err \<Rightarrow> Some err
                         | None \<Rightarrow> e0))))"

text \<open>
  A call that failed with an InvalidArgument error without passing any request to
  \<open>c.conn.Do\<close>: for a singular and for a batched operation.
\<close>

definition rejected :: "('m, 'd) single \<Rightarrow> bool" where
  "rejected r =
     ((case snd (fst r) of Some err \<Rightarrow> IsInvalidArgument err | None \<Rightarrow> False) \<and>
      fst (snd r) = [])"

definition rejected_batch :: "('m, 'd) batch \<Rightarrow> bool" where
  "rejected_batch r =
     (case r of
        None \<Rightarrow> False
      | Some ((metas, errs, e), sent, st) \<Rightarrow>
          (case e of Some err \<Rightarrow> IsInvalidArgument err | None \<Rightarrow> False) \<and> sent = [])"


section \<open>Reading a trace\<close>

text \<open>
  An attempt is retryable when it failed with an error that is not a caller
  cancellation and the request was not written: the only case in which the loop goes
  on to another server.
\<close>

definition retryable :: "'r attempt \<Rightarrow> bool" where
  "retryable a = (case outcome a of Inl e \<Rightarrow> \<not> IsCanceled e \<and> \<not> wrote a | Inr r \<Rightarrow> False)"

text \<open>What \<open>Do\<close> returns on leaving the loop after attempt \<open>a\<close>.\<close>

definition verdict :: "'r attempt \<Rightarrow> error + 'r" where
  "verdict a =
     (case outcome a of
        Inr resp \<Rightarrow> Inr resp
      | Inl e \<Rightarrow>
          if IsCanceled e \<or> IsArangoError e \<or> \<not> wrote a then Inl (WithStack e)
          else Inl (WithStack (ResponseError e)))"

text \<open>
  What holds of the entries \<open>new\<close> that a run of the loop adds to the trace, when the
  run starts with the cursor of \<open>c\<close> and counter \<open>attempt\<close> and ends with result
  \<open>res\<close>, connection \<open>c'\<close> and request \<open>req'\<close>.
\<close>

definition loop_post ::
  "('m, 'r, 'v) clusterConnection \<Rightarrow> int \<Rightarrow> nat \<Rightarrow> (error + 'r) \<Rightarrow> ('m, 'r, 'v) clusterConnection \<Rightarrow>
     'm request_scheme \<Rightarrow> 'r attempt list \<Rightarrow> bool" where
  "loop_post c sl attempt res c' req' new =
     (new \<noteq> [] \<and> length new \<le> Suc (length (servers c)) - attempt \<and>
      servers c' = servers c \<and> defaultTimeout c' = defaultTimeout c \<and>
      (\<forall>k<length new. server_index (new ! k) = (current c + k) mod length (servers c) \<and>
                        slice (new ! k) = sl) \<and>
      (\<forall>k. Suc k < length new \<longrightarrow> retryable (new ! k)) \<and>
      current c' = server_index (last new) \<and>
      wrote (last new) = written req' \<and>
      res = verdict (last new) \<and>
      (retryable (last new) \<longrightarrow> length new = Suc (length (servers c)) - attempt))"


abbreviation (input) ctx_of :: "Context option \<Rightarrow> Context" where
  "ctx_of ctx0 \<equiv> (case ctx0 of None \<Rightarrow> Background | Some x \<Rightarrow> x)"


section \<open>Example servers and pools\<close>

text \<open>
  A server that fails every request with a given error, with the request written or
  not afterwards; a server that answers every request; a pool with the default timeout
  of one minute.
\<close>

definition failing :: "error \<Rightarrow> bool \<Rightarrow> (unit, string, string) Connection" where
  "failing err w =
     \<lparr>NewRequest = (\<lambda>meth pth. Inr \<lparr>written = False\<rparr>),
      Do = (\<lambda>ctx req. (Inl err, req\<lparr>written := w\<rparr>)),
      Unmarshal = (\<lambda>data. Inr data)\<rparr>"

definition answering :: "string \<Rightarrow> (unit, string, string) Connection" where
  "answering body =
     \<lparr>NewRequest = (\<lambda>meth pth. Inr \<lparr>written = False\<rparr>),
      Do = (\<lambda>ctx req. (Inr body, req\<lparr>written := True\<rparr>)),
      Unmarshal = (\<lambda>data. Inr data)\<rparr>"

definition pool :: "(unit, string, string) Connection list \<Rightarrow> nat \<Rightarrow> (unit, string, string) clusterConnection" where
  "pool srvs k = \<lparr>servers = srvs, current = k, defaultTimeout = 60000000000\<rparr>"


text \<open>
  For the collection: a connection that answers every request with a given response;
  a driver whose requests accept any body, whose settings are the given ones whatever
  the context, and which expects the status without wait-for-sync; a collection
  \<open>users\<close> of a database \<open>test\<close>.
\<close>

definition replying :: "string Response \<Rightarrow> (unit, string Response, string) Connection" where
  "replying resp =
     \<lparr>NewRequest = (\<lambda>meth pth. Inr \<lparr>written = False\<rparr>),
      Do = (\<lambda>ctx req. (Inr resp, req\<lparr>written := True\<rparr>)),
      Unmarshal = (\<lambda>data. Inr data)\<rparr>"

definition plain :: "string contextSettings \<Rightarrow> (unit, string) driver" where
  "plain cs =
     \<lparr>path_Join = (\<lambda>xs. concat (map (\<lambda>x. CHR ''/'' # x) xs)),
      Kind_String = (\<lambda>v. case v of NilValue \<Rightarrow> ''invalid'' | Value d \<Rightarrow> ''string''
                            | Values ds \<Rightarrow> ''slice''),
      SetBody = (\<lambda>req body. Inr req),
      SetBodyArray = (\<lambda>req body mergeArray. Inr req),
      applyContextSettings = (\<lambda>ctx req. (cs, req)),
      okStatus = (\<lambda>cs statusWithWaitForSync statusWithoutWaitForSync. statusWithoutWaitForSync)\<rparr>"

definition users :: "(unit, string Response, string) Connection \<Rightarrow> (unit, string, string) collection" where
  "users cn = \<lparr>name = ''users'', db = \<lparr>db_name = ''test'', db_conn = cn\<rparr>, conn = cn\<rparr>"

definition settings :: "bool \<Rightarrow> string val \<Rightarrow> string val \<Rightarrow> string contextSettings" where
  "settings silent old new =
     \<lparr>Silent = silent, ReturnOld = old, ReturnNew = new, Revisions = None\<rparr>"

text \<open>
  A response whose body is one document with the given status and key, and a response
  whose body is an array of responses.
\<close>

definition item :: "int \<Rightarrow> string \<Rightarrow> (string \<Rightarrow> error + string) \<Rightarrow> string Response" where
  "item status k fs =
     Response status (ArangoError status 1210 ''unique constraint violated'')
       (Inr \<lparr>Key = k, ID = ''users/'' @ k, Rev = ''_rev1''\<rparr>) fs
       (Inl (TransportError ''not an array''))"

definition array :: "int \<Rightarrow> string Response list \<Rightarrow> string Response" where
  "array status items =
     Response status (ArangoError status 0 ''error'')
       (Inl (TransportError ''not an object'')) (\<lambda>f. Inl (TransportError ''not an object''))
       (Inr items)"



section \<open>Properties of the cluster connection\<close>

declare Do_loop.simps [simp del]

declare parseResponseArray_loop.simps [simp del]

declare itoa.simps [simp del]

subsection \<open>Connections built by NewConnection\<close>

lemma NewConnection_wellformed:
  "NewConnection config srvs = Inr c \<Longrightarrow>
     servers c = srvs \<and> servers c \<noteq> [] \<and> current c = 0 \<and> current c < length (servers c)"
  by (auto simp: NewConnection_def Let_def split: if_splits)

lemma NewConnection_empty:
  "NewConnection config [] = Inl (WithStack (InvalidArgumentError ''Must provide at least 1 server''))"
  by (simp add: NewConnection_def)

subsection \<open>The trace of the loop\<close>

lemma Do_loop_trace:
  "servers c \<noteq> [] \<Longrightarrow> current c < length (servers c) \<Longrightarrow> 1 \<le> attempt \<Longrightarrow>
   attempt \<le> length (servers c) \<Longrightarrow>
   \<exists>res c' req' new. Do_loop c ctx now tmo dv req attempt s tr = Some (res, c', req', tr @ new) \<and>
       loop_post c (serverTimeout tmo dv) attempt res c' req' new \<and>
       hd new = \<lparr>server_index = current c, slice = serverTimeout tmo dv,
                  outcome = fst (Do s (Some (WithTimeout ctx now (serverTimeout tmo dv))) req),
                  wrote = written (snd (Do s (Some (WithTimeout ctx now (serverTimeout tmo dv))) req))\<rparr>"
proof (induction c ctx now tmo dv req attempt s tr rule: Do_loop.induct)
  case (1 c ctx now tmo dv req attempt s tr)
  let ?N = "length (servers c)"
  let ?sl = "serverTimeout tmo dv"
  obtain res req1 where call: "Do s (Some (WithTimeout ctx now ?sl)) req = (res, req1)"
    by (cases "Do s (Some (WithTimeout ctx now ?sl)) req") auto
  let ?a = "\<lparr>server_index = current c, slice = ?sl, outcome = res, wrote = written req1\<rparr>"
  have cur: "current c mod ?N = current c" using "1.prems" by simp
  show ?case
  proof (cases "retryable ?a \<and> attempt + 1 \<le> ?N")
    case False
    then have stop: "Do_loop c ctx now tmo dv req attempt s tr = Some (verdict ?a, c, req1, tr @ [?a])"
      using call
      by (subst Do_loop.simps)
         (auto simp: Let_def retryable_def verdict_def split: sum.splits)
    have "loop_post c ?sl attempt (verdict ?a) c req1 [?a]"
      using False "1.prems" by (auto simp: loop_post_def)
    with stop call show ?thesis by auto
  next
    case True
    then obtain err where res: "res = Inl err" and nc: "\<not> IsCanceled err" and nw: "\<not> written req1"
      by (auto simp: retryable_def split: sum.splits)
    let ?c' = "c\<lparr>current := (current c + 1) mod ?N\<rparr>"
    let ?s' = "servers c ! ((current c + 1) mod ?N)"
    have gn: "getNextServer c = Some (?c', ?s')"
      using "1.prems" by (simp add: getNextServer_def Let_def)
    have step: "Do_loop c ctx now tmo dv req attempt s tr
                  = Do_loop ?c' ctx now tmo dv req1 (attempt + 1) ?s' (tr @ [?a])"
      using call res nc nw True gn
      by (subst Do_loop.simps) (simp add: Let_def)
    have "\<exists>res' c'' req'' new. Do_loop ?c' ctx now tmo dv req1 (attempt + 1) ?s' (tr @ [?a])
              = Some (res', c'', req'', (tr @ [?a]) @ new) \<and>
            loop_post ?c' ?sl (attempt + 1) res' c'' req'' new"
      using "1.IH"[OF refl call[symmetric] refl res nc nw refl _ gn refl] True "1.prems"
      apply simp
      apply blast
      done
    then obtain res' c'' req'' new where
      run: "Do_loop ?c' ctx now tmo dv req1 (attempt + 1) ?s' (tr @ [?a])
              = Some (res', c'', req'', (tr @ [?a]) @ new)" and
      post: "loop_post ?c' ?sl (attempt + 1) res' c'' req'' new"
      by blast
    have idx: "\<And>k. (Suc (current c) mod ?N + k) mod ?N = Suc (current c + k) mod ?N"
      by (simp add: mod_add_left_eq)
    from post have
      p1: "new \<noteq> []" and
      p2: "length new \<le> ?N - attempt" and
      p3: "servers c'' = servers c" "defaultTimeout c'' = defaultTimeout c" and
      p4: "\<And>k. k < length new \<Longrightarrow> server_index (new ! k) = (current c + Suc k) mod ?N \<and> slice (new ! k) = ?sl" and
      p5: "\<And>k. Suc k < length new \<Longrightarrow> retryable (new ! k)" and
      p6: "current c'' = server_index (last new)" "wrote (last new) = written req''"
          "res' = verdict (last new)" and
      p7: "retryable (last new) \<Longrightarrow> length new = ?N - attempt"
      by (simp_all add: loop_post_def idx)
    have q4: "\<And>k. k < length (?a # new) \<Longrightarrow>
               server_index ((?a # new) ! k) = (current c + k) mod ?N \<and> slice ((?a # new) ! k) = ?sl"
      using p4 cur by (simp add: nth_Cons split: nat.splits)
    have q5: "\<And>k. Suc k < length (?a # new) \<Longrightarrow> retryable ((?a # new) ! k)"
      using p5 True by (simp add: nth_Cons split: nat.splits)
    have q2: "length (?a # new) \<le> Suc ?N - attempt"
      using p2 True by auto
    have q7: "retryable (last (?a # new)) \<Longrightarrow> length (?a # new) = Suc ?N - attempt"
      using p7 p1 True by auto
    have "loop_post c ?sl attempt res' c'' req'' (?a # new)"
      unfolding loop_post_def
      using q2 q4 q5 q7 p1 p3 p6 by simp
    with step run call show ?thesis by auto
  qed
qed


lemma clusterConnection_Do_trace:
  assumes "servers c \<noteq> []" "current c < length (servers c)"
  shows "\<exists>res c' req' tr.
           clusterConnection_Do c ctx0 now req = Some (res, c', req', tr) \<and>
           loop_post c (serverTimeout (Do_timeout c (case ctx0 of None \<Rightarrow> Background | Some x \<Rightarrow> x) now)
                          (timeoutDivider (length (servers c)))) 1 res c' req' tr \<and>
           hd tr = \<lparr>server_index = current c,
                     slice = serverTimeout (Do_timeout c (case ctx0 of None \<Rightarrow> Background | Some x \<Rightarrow> x) now)
                          (timeoutDivider (length (servers c))),
                     outcome = fst (Do (servers c ! current c)
                        (Some (WithTimeout (case ctx0 of None \<Rightarrow> Background | Some x \<Rightarrow> x) now
                           (serverTimeout (Do_timeout c (case ctx0 of None \<Rightarrow> Background | Some x \<Rightarrow> x) now)
                          (timeoutDivider (length (servers c)))))) req),
                     wrote = written (snd (Do (servers c ! current c)
                        (Some (WithTimeout (case ctx0 of None \<Rightarrow> Background | Some x \<Rightarrow> x) now
                           (serverTimeout (Do_timeout c (case ctx0 of None \<Rightarrow> Background | Some x \<Rightarrow> x) now)
                          (timeoutDivider (length (servers c)))))) req))\<rparr>"
proof -
  have len: "1 \<le> length (servers c)" using assms(1) by (cases "servers c") auto
  show ?thesis
    using Do_loop_trace[OF assms(1) assms(2) order_refl len, where tr = "[]"] assms(2)
    by (simp add: clusterConnection_Do_def getCurrentServer_def Let_def)
qed




lemmas fixture_defs = failing_def answering_def pool_def

lemmas Do_eval = clusterConnection_Do_def getCurrentServer_def getNextServer_def Do_loop.simps
  Do_timeout_def Background_def WithTimeout_def serverTimeout_def timeoutDivider_def
  IsCanceled_def IsArangoError_def WithStack_def Let_def


lemma Do_trace_facts:
  assumes "servers c \<noteq> []" "current c < length (servers c)"
  obtains res c' req' tr where
    "clusterConnection_Do c ctx0 now req = Some (res, c', req', tr)"
    "tr \<noteq> []" "length tr \<le> length (servers c)"
    "servers c' = servers c" "defaultTimeout c' = defaultTimeout c"
    "\<And>k. k < length tr \<Longrightarrow> server_index (tr ! k) = (current c + k) mod length (servers c)"
    "\<And>k. k < length tr \<Longrightarrow> slice (tr ! k) =
        serverTimeout (Do_timeout c (ctx_of ctx0) now) (timeoutDivider (length (servers c)))"
    "\<And>k. Suc k < length tr \<Longrightarrow> retryable (tr ! k)"
    "current c' = server_index (last tr)" "wrote (last tr) = written req'"
    "res = verdict (last tr)"
    "retryable (last tr) \<Longrightarrow> length tr = length (servers c)"
proof -
  from clusterConnection_Do_trace[OF assms, of ctx0 now req]
  obtain res c' req' tr where
    run: "clusterConnection_Do c ctx0 now req = Some (res, c', req', tr)" and
    post: "loop_post c (serverTimeout (Do_timeout c (ctx_of ctx0) now)
                          (timeoutDivider (length (servers c)))) 1 res c' req' tr"
    by blast
  show thesis
    by (rule that[OF run]) (use post in \<open>simp_all add: loop_post_def\<close>)
qed

subsection \<open>Failover over the whole pool\<close>





subsection \<open>Timeout slices\<close>





subsection \<open>Failures after the request was written\<close>

text \<open>
  Claim C3, as amended. An attempt that fails with the request written is the last
  attempt of the call (the only one when it is the first): the cursor stays on its
  endpoint and the error is returned directly, as it is when it is a caller
  cancellation or an Arango error, and wrapped in a \<open>ResponseError\<close> otherwise.
\<close>

theorem C3_written_failure_is_final:
  assumes "servers c \<noteq> []" and "current c < length (servers c)"
  shows "\<exists>res c' req' tr.
     clusterConnection_Do c ctx0 now req = Some (res, c', req', tr) \<and>
     (\<forall>i < length tr. \<forall>e. outcome (tr ! i) = Inl e \<and> wrote (tr ! i) \<longrightarrow>
        Suc i = length tr \<and>
        server_index (tr ! i) = (current c + i) mod length (servers c) \<and>
        current c' = server_index (tr ! i) \<and>
        res = (if IsCanceled e \<or> IsArangoError e then Inl (WithStack e)
               else Inl (WithStack (ResponseError e))))"
proof -
  let ?N = "length (servers c)"
  from Do_trace_facts[OF assms, of ctx0 now req]
  obtain res c' req' tr where
    run: "clusterConnection_Do c ctx0 now req = Some (res, c', req', tr)" and
    ne: "tr \<noteq> []" and
    idx: "\<And>k. k < length tr \<Longrightarrow> server_index (tr ! k) = (current c + k) mod ?N" and
    retry: "\<And>k. Suc k < length tr \<Longrightarrow> retryable (tr ! k)" and
    cur: "current c' = server_index (last tr)" and
    res: "res = verdict (last tr)"
    by metis
  have "Suc i = length tr \<and> server_index (tr ! i) = (current c + i) mod ?N \<and>
        current c' = server_index (tr ! i) \<and>
        res = (if IsCanceled e \<or> IsArangoError e then Inl (WithStack e)
               else Inl (WithStack (ResponseError e)))"
    if i: "i < length tr" and o: "outcome (tr ! i) = Inl e" and w: "wrote (tr ! i)" for i e
  proof -
    have "\<not> retryable (tr ! i)" using o w by (simp add: retryable_def)
    with retry[of i] i have fin: "Suc i = length tr" by (cases "Suc i < length tr") simp_all
    then have l: "last tr = tr ! i" using ne by (simp add: last_conv_nth flip: fin)
    have "res = (if IsCanceled e \<or> IsArangoError e then Inl (WithStack e)
               else Inl (WithStack (ResponseError e)))"
      using res o w unfolding l by (simp add: verdict_def)
    with fin idx[OF i] cur l show ?thesis by simp
  qed
  with run show ?thesis by blast
qed

text \<open>
  The theorem at a pool whose second server breaks after the request was written (the
  error is wrapped, the third server is not tried), and at a server that answers with
  an Arango error (returned as it is).
\<close>

theorem C3_witness:
  "servers (pool [failing (TransportError ''a down'') False,
                  failing (TransportError ''broken pipe'') True, answering ''ok''] 0) \<noteq> [] \<and>
   current (pool [failing (TransportError ''a down'') False,
                  failing (TransportError ''broken pipe'') True, answering ''ok''] 0) < 3 \<and>
   clusterConnection_Do
     (pool [failing (TransportError ''a down'') False,
            failing (TransportError ''broken pipe'') True, answering ''ok''] 0)
     None 0 \<lparr>written = False\<rparr> =
   Some (Inl (ResponseError (TransportError ''broken pipe'')),
         pool [failing (TransportError ''a down'') False,
               failing (TransportError ''broken pipe'') True, answering ''ok''] 1,
         \<lparr>written = True\<rparr>,
         [\<lparr>server_index = 0, slice = 20000000000,
            outcome = Inl (TransportError ''a down''), wrote = False\<rparr>,
          \<lparr>server_index = 1, slice = 20000000000,
            outcome = Inl (TransportError ''broken pipe''), wrote = True\<rparr>]) \<and>
   \<not> IsCanceled (TransportError ''broken pipe'') \<and>
   \<not> IsArangoError (TransportError ''broken pipe'') \<and>
   clusterConnection_Do (pool [failing (ArangoError 404 1202 ''not found'') True] 0)
     None 0 \<lparr>written = False\<rparr> =
   Some (Inl (ArangoError 404 1202 ''not found''),
         pool [failing (ArangoError 404 1202 ''not found'') True] 0,
         \<lparr>written = True\<rparr>,
         [\<lparr>server_index = 0, slice = 60000000000,
            outcome = Inl (ArangoError 404 1202 ''not found''), wrote = True\<rparr>]) \<and>
   IsArangoError (ArangoError 404 1202 ''not found'')"
  using C3_written_failure_is_final
    [of "pool [failing (TransportError ''a down'') False,
            failing (TransportError ''broken pipe'') True, answering ''ok''] 0"
        None 0 "\<lparr>written = False\<rparr>"]
  by (simp add: Do_eval fixture_defs)

text \<open>
  Claim C3 as stated has every error after the request was written, other than an
  Arango error, wrapped as a response error. A caller cancellation that arrives after
  the request was written is returned as it is: the source tests \<open>IsCanceled\<close> before
  \<open>req.Written()\<close>.
\<close>

theorem C3_counterexample:
  "clusterConnection_Do (pool [failing ContextCanceled True, answering ''ok''] 0)
     None 0 \<lparr>written = False\<rparr> =
   Some (Inl ContextCanceled, pool [failing ContextCanceled True, answering ''ok''] 0,
         \<lparr>written = True\<rparr>,
         [\<lparr>server_index = 0, slice = 30000000000,
            outcome = Inl ContextCanceled, wrote = True\<rparr>]) \<and>
   \<not> IsArangoError ContextCanceled \<and>
   ContextCanceled \<noteq> WithStack (ResponseError ContextCanceled)"
  by (simp add: Do_eval fixture_defs)


subsection \<open>Caller cancellation\<close>

text \<open>
  Claim C4. An attempt that fails with an error classified as caller cancellation is
  the last attempt of the call: \<open>Do\<close> returns that error, tries no other endpoint and
  leaves the cursor on the endpoint of that attempt (so unchanged when it is the first
  attempt).
\<close>

theorem C4_cancellation_is_final:
  assumes "servers c \<noteq> []" and "current c < length (servers c)"
  shows "\<exists>res c' req' tr.
     clusterConnection_Do c ctx0 now req = Some (res, c', req', tr) \<and>
     (\<forall>i < length tr. \<forall>e. outcome (tr ! i) = Inl e \<and> IsCanceled e \<longrightarrow>
        Suc i = length tr \<and>
        server_index (tr ! i) = (current c + i) mod length (servers c) \<and>
        current c' = server_index (tr ! i) \<and>
        res = Inl (WithStack e))"
proof -
  let ?N = "length (servers c)"
  from Do_trace_facts[OF assms, of ctx0 now req]
  obtain res c' req' tr where
    run: "clusterConnection_Do c ctx0 now req = Some (res, c', req', tr)" and
    ne: "tr \<noteq> []" and
    idx: "\<And>k. k < length tr \<Longrightarrow> server_index (tr ! k) = (current c + k) mod ?N" and
    retry: "\<And>k. Suc k < length tr \<Longrightarrow> retryable (tr ! k)" and
    cur: "current c' = server_index (last tr)" and
    res: "res = verdict (last tr)"
    by metis
  have "Suc i = length tr \<and> server_index (tr ! i) = (current c + i) mod ?N \<and>
        current c' = server_index (tr ! i) \<and> res = Inl (WithStack e)"
    if i: "i < length tr" and o: "outcome (tr ! i) = Inl e" and w: "IsCanceled e" for i e
  proof -
    have "\<not> retryable (tr ! i)" using o w by (simp add: retryable_def)
    with retry[of i] i have fin: "Suc i = length tr" by (cases "Suc i < length tr") simp_all
    then have l: "last tr = tr ! i" using ne by (simp add: last_conv_nth flip: fin)
    have "res = Inl (WithStack e)"
      using res o w unfolding l by (simp add: verdict_def)
    with fin idx[OF i] cur l show ?thesis by simp
  qed
  with run show ?thesis by blast
qed

text \<open>
  The theorem at a pool whose second server fails with the deadline of the context
  exceeded (the third server is not tried, the cursor stays on 1), and at a first
  server that fails with the context cancelled (the cursor stays on 0).
\<close>

theorem C4_witness:
  "servers (pool [failing (TransportError ''a down'') False,
                  failing ContextDeadlineExceeded False, answering ''ok''] 0) \<noteq> [] \<and>
   current (pool [failing (TransportError ''a down'') False,
                  failing ContextDeadlineExceeded False, answering ''ok''] 0) < 3 \<and>
   clusterConnection_Do
     (pool [failing (TransportError ''a down'') False,
            failing ContextDeadlineExceeded False, answering ''ok''] 0)
     None 0 \<lparr>written = False\<rparr> =
   Some (Inl ContextDeadlineExceeded,
         pool [failing (TransportError ''a down'') False,
               failing ContextDeadlineExceeded False, answering ''ok''] 1,
         \<lparr>written = False\<rparr>,
         [\<lparr>server_index = 0, slice = 20000000000,
            outcome = Inl (TransportError ''a down''), wrote = False\<rparr>,
          \<lparr>server_index = 1, slice = 20000000000,
            outcome = Inl ContextDeadlineExceeded, wrote = False\<rparr>]) \<and>
   IsCanceled ContextDeadlineExceeded \<and>
   clusterConnection_Do (pool [failing ContextCanceled True, answering ''ok''] 0)
     None 0 \<lparr>written = False\<rparr> =
   Some (Inl ContextCanceled, pool [failing ContextCanceled True, answering ''ok''] 0,
         \<lparr>written = True\<rparr>,
         [\<lparr>server_index = 0, slice = 30000000000,
            outcome = Inl ContextCanceled, wrote = True\<rparr>]) \<and>
   IsCanceled ContextCanceled"
  using C4_cancellation_is_final
    [of "pool [failing (TransportError ''a down'') False,
            failing ContextDeadlineExceeded False, answering ''ok''] 0"
        None 0 "\<lparr>written = False\<rparr>"]
  by (simp add: Do_eval fixture_defs)


subsection \<open>Success\<close>




subsection \<open>Requests and decoding go to the first server\<close>

text \<open>
  Claim C10. Whatever the cursor \<open>k\<close> is, \<open>NewRequest\<close> and \<open>Unmarshal\<close> of the
  cluster connection hand the call to the first server of the pool, \<open>servers[0]\<close>;
  \<open>Do\<close> is the one that reads the cursor: its first attempt goes to \<open>servers[k]\<close>.
\<close>

theorem C10_first_server_delegation:
  assumes "servers c \<noteq> []"
  shows "clusterConnection_NewRequest (c\<lparr>current := k\<rparr>) meth pth =
           Some (NewRequest (servers c ! 0) meth pth) \<and>
         clusterConnection_Unmarshal (c\<lparr>current := k\<rparr>) data =
           Some (case Unmarshal (servers c ! 0) data of
                   Inl err \<Rightarrow> Inl (WithStack err)
                 | Inr v \<Rightarrow> Inr v) \<and>
         (k < length (servers c) \<longrightarrow>
            (\<exists>res c' req' tr.
               clusterConnection_Do (c\<lparr>current := k\<rparr>) ctx0 now req = Some (res, c', req', tr) \<and>
               tr \<noteq> [] \<and> server_index (hd tr) = k \<and>
               outcome (hd tr) =
                 fst (Do (servers c ! k)
                        (Some (WithTimeout (ctx_of ctx0) now
                           (serverTimeout (Do_timeout c (ctx_of ctx0) now)
                              (timeoutDivider (length (servers c)))))) req)))"
proof -
  from assms obtain s0 rest where sv: "servers c = s0 # rest" by (cases "servers c") auto
  have nr: "clusterConnection_NewRequest (c\<lparr>current := k\<rparr>) meth pth =
           Some (NewRequest (servers c ! 0) meth pth)"
    by (simp add: clusterConnection_NewRequest_def sv)
  have um: "clusterConnection_Unmarshal (c\<lparr>current := k\<rparr>) data =
           Some (case Unmarshal (servers c ! 0) data of
                   Inl err \<Rightarrow> Inl (WithStack err)
                 | Inr v \<Rightarrow> Inr v)"
    by (simp add: clusterConnection_Unmarshal_def sv)
  have "\<exists>res c' req' tr.
               clusterConnection_Do (c\<lparr>current := k\<rparr>) ctx0 now req = Some (res, c', req', tr) \<and>
               tr \<noteq> [] \<and> server_index (hd tr) = k \<and>
               outcome (hd tr) =
                 fst (Do (servers c ! k)
                        (Some (WithTimeout (ctx_of ctx0) now
                           (serverTimeout (Do_timeout c (ctx_of ctx0) now)
                              (timeoutDivider (length (servers c)))))) req)"
    if k: "k < length (servers c)"
  proof -
    have wf: "servers (c\<lparr>current := k\<rparr>) \<noteq> []"
             "current (c\<lparr>current := k\<rparr>) < length (servers (c\<lparr>current := k\<rparr>))"
      using assms k by simp_all
    have dt: "Do_timeout (c\<lparr>current := k\<rparr>) x now = Do_timeout c x now" for x
      by (simp add: Do_timeout_def split: option.splits)
    from clusterConnection_Do_trace[OF wf, of ctx0 now req]
    show ?thesis
      by (auto simp: loop_post_def dt)
  qed
  with nr um show ?thesis by blast
qed

text \<open>
  The theorem at a pool of two servers with the cursor on the second: requests are
  built by the first server, \<open>Do\<close> is answered by the second.
\<close>

theorem C10_witness:
  "servers (pool [answering ''first'', answering ''second''] 1) \<noteq> [] \<and>
   clusterConnection_NewRequest (pool [answering ''first'', answering ''second''] 1) ''GET'' ''/x'' =
     Some (NewRequest (answering ''first'') ''GET'' ''/x'') \<and>
   clusterConnection_Unmarshal (pool [answering ''first'', answering ''second''] 1) ''{}'' =
     Some (Inr ''{}'') \<and>
   (1::nat) < length (servers (pool [answering ''first'', answering ''second''] 1)) \<and>
   clusterConnection_Do (pool [answering ''first'', answering ''second''] 1)
     None 0 \<lparr>written = False\<rparr> =
   Some (Inr ''second'', pool [answering ''first'', answering ''second''] 1, \<lparr>written = True\<rparr>,
         [\<lparr>server_index = 1, slice = 30000000000, outcome = Inr ''second'', wrote = True\<rparr>])"
  using C10_first_server_delegation
    [of "pool [answering ''first'', answering ''second''] 1" 1 "''GET''" "''/x''" "''{}''"
        None 0 "\<lparr>written = False\<rparr>"]
  by (simp add: Do_eval fixture_defs clusterConnection_NewRequest_def
        clusterConnection_Unmarshal_def)


section \<open>Properties of the collection\<close>

lemmas coll_fixture_defs = replying_def plain_def users_def settings_def item_def array_def

lemmas coll_eval = parseResponseArray_def parseResponseArray_loop.simps parseResponseArray_body_def
  parseEntry_def CheckStatus_def entry_error_def indexable_def DocumentMeta0_def Let_def
  WithStack_def


lemmas ops_eval = ReadDocument_def CreateDocument_def UpdateDocument_def ReplaceDocument_def
  RemoveDocument_def CreateDocuments_def UpdateDocuments_def validateKey_def parseReturn_def
  createMergeArray_def elems_def relPath_def database_relPath_def newArangoError_def
  itoa.simps IsInvalidArgument_def

subsection \<open>The loop of parseResponseArray\<close>

lemma parseEntry_indexable:
  assumes "indexable dest count" "i < count"
  shows "\<exists>st'. parseEntry resp field dest i = Some (entry_error resp field dest, st')"
  using assms
  by (auto simp: parseEntry_def indexable_def entry_error_def split: val.splits sum.splits)

lemma parseResponseArray_body_result:
  assumes "indexable (ReturnOld cs) count" "indexable (ReturnNew cs) count" "i < count"
    and "i < length metas" "i < length errs"
  shows "\<exists>metas' errs' st'.
           parseResponseArray_body resp cs i metas errs st = Some (metas', errs', st') \<and>
           length metas' = length metas \<and> length errs' = length errs \<and>
           (\<forall>j. j \<noteq> i \<longrightarrow> metas' ! j = metas ! j \<and> errs' ! j = errs ! j) \<and>
           item_ok cs resp (metas ! i) (errs ! i) (metas' ! i) (errs' ! i)"
proof -
  from parseEntry_indexable[OF assms(1) assms(3)] obtain st1 where
    old: "parseEntry resp ''old'' (ReturnOld cs) i = Some (entry_error resp ''old'' (ReturnOld cs), st1)"
    by blast
  from parseEntry_indexable[OF assms(2) assms(3)] obtain st2 where
    new: "parseEntry resp ''new'' (ReturnNew cs) i = Some (entry_error resp ''new'' (ReturnNew cs), st2)"
    by blast
  show ?thesis
    using assms(4,5)
    by (auto simp: parseResponseArray_body_def item_ok_def old new Let_def
             split: option.splits sum.splits)
qed

lemma parseResponseArray_loop_result:
  "count \<le> length resps \<Longrightarrow> indexable (ReturnOld cs) count \<Longrightarrow> indexable (ReturnNew cs) count \<Longrightarrow>
   length metas = count \<Longrightarrow> length errs = count \<Longrightarrow> i \<le> count \<Longrightarrow>
   \<exists>metas' errs' st'.
     parseResponseArray_loop resps count cs i metas errs st = Some ((metas', errs', None), st') \<and>
     length metas' = count \<and> length errs' = count \<and>
     (\<forall>j<i. metas' ! j = metas ! j \<and> errs' ! j = errs ! j) \<and>
     (\<forall>j. i \<le> j \<and> j < count \<longrightarrow>
          item_ok cs (resps ! j) (metas ! j) (errs ! j) (metas' ! j) (errs' ! j))"
proof (induction resps count cs i metas errs st rule: parseResponseArray_loop.induct)
  case (1 resps count cs i metas errs st)
  show ?case
  proof (cases "i < count")
    case False
    with "1.prems" show ?thesis
      by (subst parseResponseArray_loop.simps) auto
  next
    case True
    with "1.prems" have ir: "i < length resps" and im: "i < length metas" and ie: "i < length errs"
      by simp_all
    from parseResponseArray_body_result[OF "1.prems"(2) "1.prems"(3) True im ie, of "resps ! i" st]
    obtain m1 e1 s1 where
      body: "parseResponseArray_body (resps ! i) cs i metas errs st = Some (m1, e1, s1)" and
      l1: "length m1 = length metas" "length e1 = length errs" and
      other: "\<And>j. j \<noteq> i \<Longrightarrow> m1 ! j = metas ! j \<and> e1 ! j = errs ! j" and
      this_item: "item_ok cs (resps ! i) (metas ! i) (errs ! i) (m1 ! i) (e1 ! i)"
      by blast
    have step: "parseResponseArray_loop resps count cs i metas errs st =
                parseResponseArray_loop resps count cs (i + 1) m1 e1 s1"
      using True ir body by (subst parseResponseArray_loop.simps) simp
    from "1.IH"[OF True ir body refl refl "1.prems"(1) "1.prems"(2) "1.prems"(3)] l1 "1.prems" True
    obtain m2 e2 s2 where
      run: "parseResponseArray_loop resps count cs (i + 1) m1 e1 s1 = Some ((m2, e2, None), s2)" and
      l2: "length m2 = count" "length e2 = count" and
      before: "\<And>j. j < i + 1 \<Longrightarrow> m2 ! j = m1 ! j \<and> e2 ! j = e1 ! j" and
      after: "\<And>j. i + 1 \<le> j \<Longrightarrow> j < count \<Longrightarrow>
                 item_ok cs (resps ! j) (m1 ! j) (e1 ! j) (m2 ! j) (e2 ! j)"
      by auto
    have a: "\<forall>j<i. m2 ! j = metas ! j \<and> e2 ! j = errs ! j"
      using before other by simp
    have b: "item_ok cs (resps ! j) (metas ! j) (errs ! j) (m2 ! j) (e2 ! j)"
      if "i \<le> j" "j < count" for j
    proof (cases "j = i")
      case True
      then show ?thesis using this_item before[of i] by simp
    next
      case False
      with that have "i + 1 \<le> j" by simp
      from after[OF this that(2)] other[OF False] show ?thesis by simp
    qed
    show ?thesis
      using step run l2 a b by auto
  qed
qed


lemma parseResponseArray_result:
  assumes "arrayBody resp = Inr resps" "count \<le> length resps"
    and "indexable (ReturnOld cs) count" "indexable (ReturnNew cs) count"
  obtains metas errs st where
    "parseResponseArray resp count cs = Some ((metas, errs, None), st)"
    "length metas = count" "length errs = count"
    "\<And>i. i < count \<Longrightarrow> item_ok cs (resps ! i) DocumentMeta0 None (metas ! i) (errs ! i)"
proof -
  from parseResponseArray_loop_result[OF assms(2) assms(3) assms(4), of
      "replicate count DocumentMeta0" "replicate count None" 0 "[]"]
  obtain metas errs st where
    "parseResponseArray_loop resps count cs 0 (replicate count DocumentMeta0)
       (replicate count None) [] = Some ((metas, errs, None), st)"
    "length metas = count" "length errs = count"
    "\<forall>j. 0 \<le> j \<and> j < count \<longrightarrow>
        item_ok cs (resps ! j) (replicate count DocumentMeta0 ! j) (replicate count None ! j)
          (metas ! j) (errs ! j)"
    by auto
  then show thesis
    by (intro that[of metas errs st]) (simp_all add: parseResponseArray_def assms(1))
qed

subsection \<open>Per-item results of a batched call\<close>

text \<open>
  Claim C5, as amended. When the response array decodes into at least \<open>count\<close>
  responses, and the destinations for old and new documents, where given, are slices
  of at least \<open>count\<close> elements, \<open>parseResponseArray\<close> returns \<open>count\<close> metas and
  \<open>count\<close> errors and no error of its own, and position \<open>i\<close> of both is decided by
  response \<open>i\<close> alone: a status outside 200, 201, 202 or metadata that do not decode
  leave the error at \<open>errs[i]\<close> and \<open>metas[i]\<close> the zero value; metadata that decode are
  at \<open>metas[i]\<close>, and \<open>errs[i]\<close> is then \<open>nil\<close> unless decoding the new or the old
  document fails, in which case \<open>errs[i]\<close> holds that error beside the metadata.
\<close>

theorem C5_batch_results_are_positional:
  assumes "arrayBody resp = Inr resps" and "count \<le> length resps"
    and "indexable (ReturnOld cs) count" and "indexable (ReturnNew cs) count"
  shows "\<exists>metas errs st.
     parseResponseArray resp count cs = Some ((metas, errs, None), st) \<and>
     length metas = count \<and> length errs = count \<and>
     (\<forall>i<count.
        (case CheckStatus (resps ! i) [200, 201, 202] of
           Some err \<Rightarrow> errs ! i = Some err \<and> metas ! i = DocumentMeta0
         | None \<Rightarrow>
             (case metaBody (resps ! i) of
                Inl err \<Rightarrow> errs ! i = Some err \<and> metas ! i = DocumentMeta0
              | Inr meta \<Rightarrow>
                  metas ! i = meta \<and>
                  errs ! i = (case entry_error (resps ! i) ''new'' (ReturnNew cs) of
                                Some err \<Rightarrow> Some err
                              | None \<Rightarrow> entry_error (resps ! i) ''old'' (ReturnOld cs)))))"
proof -
  from parseResponseArray_result[OF assms]
  obtain metas errs st where
    run: "parseResponseArray resp count cs = Some ((metas, errs, None), st)" and
    len: "length metas = count" "length errs = count" and
    it: "\<And>i. i < count \<Longrightarrow> item_ok cs (resps ! i) DocumentMeta0 None (metas ! i) (errs ! i)"
    by blast
  have "case CheckStatus (resps ! i) [200, 201, 202] of
           Some err \<Rightarrow> errs ! i = Some err \<and> metas ! i = DocumentMeta0
         | None \<Rightarrow>
             (case metaBody (resps ! i) of
                Inl err \<Rightarrow> errs ! i = Some err \<and> metas ! i = DocumentMeta0
              | Inr meta \<Rightarrow>
                  metas ! i = meta \<and>
                  errs ! i = (case entry_error (resps ! i) ''new'' (ReturnNew cs) of
                                Some err \<Rightarrow> Some err
                              | None \<Rightarrow> entry_error (resps ! i) ''old'' (ReturnOld cs)))"
    if "i < count" for i
    using it[OF that] by (auto simp: item_ok_def split: option.splits sum.splits)
  with run len show ?thesis by blast
qed

text \<open>
  The theorem at three responses of which the second has status 409: its error is at
  position 1 beside a zero meta, the two others have their metadata.
\<close>

theorem C5_witness:
  "arrayBody (array 202 [item 202 ''k1'' (\<lambda>f. Inr ''doc''), item 409 ''k2'' (\<lambda>f. Inr ''doc''),
                         item 202 ''k3'' (\<lambda>f. Inr ''doc'')]) =
     Inr [item 202 ''k1'' (\<lambda>f. Inr ''doc''), item 409 ''k2'' (\<lambda>f. Inr ''doc''),
          item 202 ''k3'' (\<lambda>f. Inr ''doc'')] \<and>
   (3::nat) \<le> length [item 202 ''k1'' (\<lambda>f. Inr ''doc''), item 409 ''k2'' (\<lambda>f. Inr ''doc''),
          item 202 ''k3'' (\<lambda>f. Inr ''doc'')] \<and>
   indexable (ReturnOld (settings False NilValue NilValue)) 3 \<and>
   indexable (ReturnNew (settings False NilValue NilValue)) 3 \<and>
   parseResponseArray (array 202 [item 202 ''k1'' (\<lambda>f. Inr ''doc''), item 409 ''k2'' (\<lambda>f. Inr ''doc''),
                         item 202 ''k3'' (\<lambda>f. Inr ''doc'')]) 3 (settings False NilValue NilValue) =
   Some (([\<lparr>Key = ''k1'', ID = ''users/k1'', Rev = ''_rev1''\<rparr>, DocumentMeta0,
           \<lparr>Key = ''k3'', ID = ''users/k3'', Rev = ''_rev1''\<rparr>],
          [None, Some (ArangoError 409 1210 ''unique constraint violated''), None], None), [])"
proof -
  let ?items = "[item 202 ''k1'' (\<lambda>f. Inr ''doc''), item 409 ''k2'' (\<lambda>f. Inr ''doc''),
                 item 202 ''k3'' (\<lambda>f. Inr ''doc'')]"
  let ?cs = "settings False NilValue NilValue :: string contextSettings"
  have a: "arrayBody (array 202 ?items) = Inr ?items" by (simp add: array_def)
  have b: "(3::nat) \<le> length ?items" by simp
  have c: "indexable (ReturnOld ?cs) 3" "indexable (ReturnNew ?cs) 3"
    by (simp_all add: indexable_def settings_def)
  from C5_batch_results_are_positional[OF a b c]
  have "\<exists>metas errs st. parseResponseArray (array 202 ?items) 3 ?cs = Some ((metas, errs, None), st)"
    by blast
  then show ?thesis
    using a b c by (simp add: coll_eval coll_fixture_defs eval_nat_numeral)
qed

text \<open>
  Claim C5 as stated has a zero meta wherever a position failed. When the metadata of
  a response decode and its old document does not, the error is recorded and the
  metadata stay at \<open>metas[i]\<close>.
\<close>

theorem C5_counterexample:
  "parseResponseArray (array 202 [item 201 ''k1'' (\<lambda>f. Inl (TransportError ''bad document''))]) 1
     (settings False (Values [''old'']) NilValue) =
   Some (([\<lparr>Key = ''k1'', ID = ''users/k1'', Rev = ''_rev1''\<rparr>],
          [Some (TransportError ''bad document'')], None), []) \<and>
   \<lparr>Key = ''k1'', ID = ''users/k1'', Rev = ''_rev1''\<rparr> \<noteq> DocumentMeta0"
  by (simp add: coll_eval coll_fixture_defs)

subsection \<open>The status check of a batched response\<close>




subsection \<open>Invalid arguments\<close>

lemma validateKeys_blank:
  "[] \<in> set ks \<Longrightarrow> \<exists>err. validateKeys ks = Some err \<and> IsInvalidArgument err"
  by (induction ks) (auto simp: validateKey_def WithStack_def IsInvalidArgument_def)

lemma validateKeys_nonblank:
  "[] \<notin> set ks \<Longrightarrow> validateKeys ks = None"
  by (induction ks) (auto simp: validateKey_def)

text \<open>
  Claim C7. A blank key (for \<open>ReadDocument\<close>, \<open>UpdateDocument\<close>, \<open>ReplaceDocument\<close>,
  \<open>RemoveDocument\<close>, and any key of \<open>UpdateDocuments\<close>), a nil document or update (for
  \<open>CreateDocument\<close>, \<open>UpdateDocument\<close>, \<open>ReplaceDocument\<close>, \<open>CreateDocuments\<close>,
  \<open>UpdateDocuments\<close>) and a number of keys that differs from the number of updates (for
  \<open>UpdateDocuments\<close>) make the operation fail with an InvalidArgument error, and no
  request is passed to \<open>c.conn.Do\<close>.
\<close>

theorem C7_invalid_arguments_fail_locally:
  "rejected (ReadDocument drv c ctx [] result) \<and>
   rejected (UpdateDocument drv c ctx [] update) \<and>
   rejected (ReplaceDocument drv c ctx [] document) \<and>
   rejected (RemoveDocument drv c ctx []) \<and>
   rejected (CreateDocument drv c ctx NilValue) \<and>
   rejected (UpdateDocument drv c ctx key NilValue) \<and>
   rejected (ReplaceDocument drv c ctx key NilValue) \<and>
   rejected_batch (CreateDocuments drv c ctx NilValue) \<and>
   rejected_batch (UpdateDocuments drv c ctx keys NilValue) \<and>
   (length (elems keys) \<noteq> length us \<longrightarrow>
      rejected_batch (UpdateDocuments drv c ctx keys (Values us))) \<and>
   ([] \<in> set (elems keys) \<longrightarrow>
      rejected_batch (UpdateDocuments drv c ctx keys (Values us)))"
proof -
  have r1: "rejected (ReadDocument drv c ctx [] result)"
    by (simp add: rejected_def ReadDocument_def validateKey_def WithStack_def IsInvalidArgument_def)
  have r2: "rejected (UpdateDocument drv c ctx [] update)"
    by (simp add: rejected_def UpdateDocument_def validateKey_def WithStack_def IsInvalidArgument_def)
  have r3: "rejected (ReplaceDocument drv c ctx [] document)"
    by (simp add: rejected_def ReplaceDocument_def validateKey_def WithStack_def IsInvalidArgument_def)
  have r4: "rejected (RemoveDocument drv c ctx [])"
    by (simp add: rejected_def RemoveDocument_def validateKey_def WithStack_def IsInvalidArgument_def)
  have r5: "rejected (CreateDocument drv c ctx NilValue)"
    by (simp add: rejected_def CreateDocument_def WithStack_def IsInvalidArgument_def)
  have r6: "rejected (UpdateDocument drv c ctx key NilValue)"
    by (simp add: rejected_def UpdateDocument_def validateKey_def WithStack_def IsInvalidArgument_def)
  have r7: "rejected (ReplaceDocument drv c ctx key NilValue)"
    by (simp add: rejected_def ReplaceDocument_def validateKey_def WithStack_def IsInvalidArgument_def)
  have r8: "rejected_batch (CreateDocuments drv c ctx NilValue)"
    by (simp add: rejected_batch_def CreateDocuments_def WithStack_def IsInvalidArgument_def)
  have r9: "rejected_batch (UpdateDocuments drv c ctx keys NilValue)"
    by (simp add: rejected_batch_def UpdateDocuments_def WithStack_def IsInvalidArgument_def)
  have r10: "rejected_batch (UpdateDocuments drv c ctx keys (Values us))"
    if "length (elems keys) \<noteq> length us"
    using that
    by (simp add: rejected_batch_def UpdateDocuments_def WithStack_def IsInvalidArgument_def)
  have r11: "rejected_batch (UpdateDocuments drv c ctx keys (Values us))"
    if "[] \<in> set (elems keys)"
  proof (cases "length (elems keys) \<noteq> length us")
    case True
    then show ?thesis by (rule r10)
  next
    case False
    from validateKeys_blank[OF that] obtain err where
      "validateKeys (elems keys) = Some err" "IsInvalidArgument err" by blast
    with False show ?thesis
      by (simp add: rejected_batch_def UpdateDocuments_def WithStack_def)
  qed
  from r1 r2 r3 r4 r5 r6 r7 r8 r9 r10 r11 show ?thesis by blast
qed

text \<open>
  The theorem at two keys, the second blank, against one update (the lengths differ)
  and against two updates (the blank key is found), and at singular calls with a blank
  key and with nil documents.
\<close>

theorem C7_witness:
  "length (elems (Some [''a'', []])) \<noteq> length [''u1''] \<and>
   [] \<in> set (elems (Some [''a'', []])) \<and>
   UpdateDocuments (plain (settings False NilValue NilValue))
     (users (replying (array 202 []))) None (Some [''a'', []]) (Values [''u1'']) =
     Some (([], [], Some (InvalidArgumentError ''expected 1 keys, got %!s(int=2)'')), [], []) \<and>
   UpdateDocuments (plain (settings False NilValue NilValue))
     (users (replying (array 202 []))) None (Some [''a'', []]) (Values [''u1'', ''u2'']) =
     Some (([], [], Some (InvalidArgumentError ''key is empty'')), [], []) \<and>
   UpdateDocument (plain (settings False NilValue NilValue))
     (users (replying (array 202 []))) None [] (Value ''u'') =
     ((DocumentMeta0, Some (InvalidArgumentError ''key is empty'')), [], []) \<and>
   UpdateDocument (plain (settings False NilValue NilValue))
     (users (replying (array 202 []))) None ''k1'' NilValue =
     ((DocumentMeta0, Some (InvalidArgumentError ''update nil'')), [], []) \<and>
   CreateDocument (plain (settings False NilValue NilValue))
     (users (replying (array 202 []))) None NilValue =
     ((DocumentMeta0, Some (InvalidArgumentError ''document nil'')), [], [])"
  using C7_invalid_arguments_fail_locally
    [of "plain (settings False NilValue NilValue)" "users (replying (array 202 []))" None
        NilValue "Value ''u''" "Value ''u''" "''k1''" "Some [''a'', []]" "[''u1'']"]
  by (simp add: ops_eval coll_eval coll_fixture_defs)

subsection \<open>What the batched operations return\<close>

text \<open>
  When the request goes through, the status is the expected one and the call is not
  silent, \<open>CreateDocuments\<close> and \<open>UpdateDocuments\<close> return the slices of
  \<open>parseResponseArray\<close> as they are, decoded for as many positions as there are
  documents or updates.
\<close>

lemma CreateDocuments_decodes:
  assumes "NewRequest (conn c) ''POST'' (relPath drv c ''document'') = Inr req0"
    and "SetBody drv req0 (Values ds) = Inr req1"
    and "applyContextSettings drv ctx req1 = (cs, req2)"
    and "Do (conn c) ctx req2 = (Inr resp, req3)"
    and "StatusCode resp = okStatus drv cs 201 202"
    and "\<not> Silent cs"
    and "parseResponseArray resp (length ds) cs = Some ((metas, errs, None), st)"
  shows "CreateDocuments drv c ctx (Values ds) = Some ((metas, errs, None), [req2], st)"
  using assms by (simp add: CreateDocuments_def)

lemma UpdateDocuments_decodes:
  assumes "length (elems keys) = length us" "[] \<notin> set (elems keys)"
    and "NewRequest (conn c) ''PATCH'' (relPath drv c ''document'') = Inr req1"
    and "applyContextSettings drv ctx req1 = (cs, req2)"
    and "createMergeArray keys (Revisions cs) = Inr mergeArray"
    and "SetBodyArray drv req2 (Values us) mergeArray = Inr req4"
    and "Do (conn c) ctx req4 = (Inr resp, req3)"
    and "StatusCode resp = okStatus drv cs 201 202"
    and "\<not> Silent cs"
    and "parseResponseArray resp (length us) cs = Some ((metas, errs, None), st)"
  shows "UpdateDocuments drv c ctx keys (Values us) = Some ((metas, errs, None), [req4], st)"
  using assms by (simp add: UpdateDocuments_def validateKeys_nonblank)

subsection \<open>Silent calls\<close>

lemma CreateDocument_silent:
  assumes "document \<noteq> NilValue"
    and "NewRequest (conn c) ''POST'' (relPath drv c ''document'') = Inr req0"
    and "SetBody drv req0 document = Inr req1"
    and "applyContextSettings drv ctx req1 = (cs, req2)"
    and "Do (conn c) ctx req2 = (Inr resp, req3)"
    and "StatusCode resp = okStatus drv cs 201 202"
    and "Silent cs"
  shows "CreateDocument drv c ctx document = ((DocumentMeta0, None), [req2], [])"
  using assms by (simp add: CreateDocument_def CheckStatus_def)

lemma UpdateDocument_silent:
  assumes "key \<noteq> []" "update \<noteq> NilValue"
    and "NewRequest (conn c) ''PATCH'' (path_Join drv [relPath drv c ''document'', key]) = Inr req0"
    and "SetBody drv req0 update = Inr req1"
    and "applyContextSettings drv ctx req1 = (cs, req2)"
    and "Do (conn c) ctx req2 = (Inr resp, req3)"
    and "StatusCode resp = okStatus drv cs 201 202"
    and "Silent cs"
  shows "UpdateDocument drv c ctx key update = ((DocumentMeta0, None), [req2], [])"
  using assms by (simp add: UpdateDocument_def CheckStatus_def validateKey_def)

lemma ReplaceDocument_silent:
  assumes "key \<noteq> []" "document \<noteq> NilValue"
    and "NewRequest (conn c) ''PUT'' (path_Join drv [relPath drv c ''document'', key]) = Inr req0"
    and "SetBody drv req0 document = Inr req1"
    and "applyContextSettings drv ctx req1 = (cs, req2)"
    and "Do (conn c) ctx req2 = (Inr resp, req3)"
    and "StatusCode resp = okStatus drv cs 201 202"
    and "Silent cs"
  shows "ReplaceDocument drv c ctx key document = ((DocumentMeta0, None), [req2], [])"
  using assms by (simp add: ReplaceDocument_def CheckStatus_def validateKey_def)

lemma RemoveDocument_silent:
  assumes "key \<noteq> []"
    and "NewRequest (conn c) ''DELETE'' (path_Join drv [relPath drv c ''document'', key]) = Inr req1"
    and "applyContextSettings drv ctx req1 = (cs, req2)"
    and "Do (conn c) ctx req2 = (Inr resp, req3)"
    and "StatusCode resp = okStatus drv cs 200 202"
    and "Silent cs"
  shows "RemoveDocument drv c ctx key = ((DocumentMeta0, None), [req2], [])"
  using assms by (simp add: RemoveDocument_def CheckStatus_def validateKey_def)

lemma CreateDocuments_silent:
  assumes "NewRequest (conn c) ''POST'' (relPath drv c ''document'') = Inr req0"
    and "SetBody drv req0 (Values ds) = Inr req1"
    and "applyContextSettings drv ctx req1 = (cs, req2)"
    and "Do (conn c) ctx req2 = (Inr resp, req3)"
    and "StatusCode resp = okStatus drv cs 201 202"
    and "Silent cs"
  shows "CreateDocuments drv c ctx (Values ds) = Some (([], [], None), [req2], [])"
  using assms by (simp add: CreateDocuments_def)

lemma UpdateDocuments_silent:
  assumes "length (elems keys) = length us" "[] \<notin> set (elems keys)"
    and "NewRequest (conn c) ''PATCH'' (relPath drv c ''document'') = Inr req1"
    and "applyContextSettings drv ctx req1 = (cs, req2)"
    and "createMergeArray keys (Revisions cs) = Inr mergeArray"
    and "SetBodyArray drv req2 (Values us) mergeArray = Inr req4"
    and "Do (conn c) ctx req4 = (Inr resp, req3)"
    and "StatusCode resp = okStatus drv cs 201 202"
    and "Silent cs"
  shows "UpdateDocuments drv c ctx keys (Values us) = Some (([], [], None), [req4], [])"
  using assms by (simp add: UpdateDocuments_def validateKeys_nonblank)

text \<open>
  Claim C8. When the settings of the call are silent, the request is sent and the
  response has the status the operation expects, every mutation returns at once with
  zero values: the zero \<open>DocumentMeta\<close> and no error for \<open>CreateDocument\<close>,
  \<open>UpdateDocument\<close>, \<open>ReplaceDocument\<close> and \<open>RemoveDocument\<close>, nil slices and no error
  for \<open>CreateDocuments\<close> and \<open>UpdateDocuments\<close>. Nothing is assumed of the body of the
  response, which is not read.
\<close>

theorem C8_silent_returns_zero_values:
  assumes "Silent cs" and "applyContextSettings drv ctx req1 = (cs, req2)"
  shows
   "(document \<noteq> NilValue \<and>
     NewRequest (conn c) ''POST'' (relPath drv c ''document'') = Inr req0 \<and>
     SetBody drv req0 document = Inr req1 \<and>
     Do (conn c) ctx req2 = (Inr resp, req3) \<and> StatusCode resp = okStatus drv cs 201 202 \<longrightarrow>
       CreateDocument drv c ctx document = ((DocumentMeta0, None), [req2], [])) \<and>
    (key \<noteq> [] \<and> document \<noteq> NilValue \<and>
     NewRequest (conn c) ''PATCH'' (path_Join drv [relPath drv c ''document'', key]) = Inr req0 \<and>
     SetBody drv req0 document = Inr req1 \<and>
     Do (conn c) ctx req2 = (Inr resp, req3) \<and> StatusCode resp = okStatus drv cs 201 202 \<longrightarrow>
       UpdateDocument drv c ctx key document = ((DocumentMeta0, None), [req2], [])) \<and>
    (key \<noteq> [] \<and> document \<noteq> NilValue \<and>
     NewRequest (conn c) ''PUT'' (path_Join drv [relPath drv c ''document'', key]) = Inr req0 \<and>
     SetBody drv req0 document = Inr req1 \<and>
     Do (conn c) ctx req2 = (Inr resp, req3) \<and> StatusCode resp = okStatus drv cs 201 202 \<longrightarrow>
       ReplaceDocument drv c ctx key document = ((DocumentMeta0, None), [req2], [])) \<and>
    (key \<noteq> [] \<and>
     NewRequest (conn c) ''DELETE'' (path_Join drv [relPath drv c ''document'', key]) = Inr req1 \<and>
     Do (conn c) ctx req2 = (Inr resp, req3) \<and> StatusCode resp = okStatus drv cs 200 202 \<longrightarrow>
       RemoveDocument drv c ctx key = ((DocumentMeta0, None), [req2], [])) \<and>
    (NewRequest (conn c) ''POST'' (relPath drv c ''document'') = Inr req0 \<and>
     SetBody drv req0 (Values ds) = Inr req1 \<and>
     Do (conn c) ctx req2 = (Inr resp, req3) \<and> StatusCode resp = okStatus drv cs 201 202 \<longrightarrow>
       CreateDocuments drv c ctx (Values ds) = Some (([], [], None), [req2], [])) \<and>
    (length (elems keys) = length ds \<and> [] \<notin> set (elems keys) \<and>
     NewRequest (conn c) ''PATCH'' (relPath drv c ''document'') = Inr req1 \<and>
     createMergeArray keys (Revisions cs) = Inr mergeArray \<and>
     SetBodyArray drv req2 (Values ds) mergeArray = Inr req4 \<and>
     Do (conn c) ctx req4 = (Inr resp, req3) \<and> StatusCode resp = okStatus drv cs 201 202 \<longrightarrow>
       UpdateDocuments drv c ctx keys (Values ds) = Some (([], [], None), [req4], []))"
  using assms
  by (intro conjI impI)
     (auto intro: CreateDocument_silent UpdateDocument_silent ReplaceDocument_silent
        RemoveDocument_silent CreateDocuments_silent UpdateDocuments_silent)

text \<open>
  The theorem at a response with status 202 whose body does not decode in any way:
  each of the six operations returns zero values and no error.
\<close>

theorem C8_witness:
  "Silent (settings True NilValue NilValue) \<and>
   StatusCode (Response 202 (ArangoError 202 0 ''none'') (Inl (TransportError ''empty body''))
       (\<lambda>f. Inl (TransportError ''empty body'')) (Inl (TransportError ''empty body''))) =
     okStatus (plain (settings True NilValue NilValue)) (settings True NilValue NilValue) 201 202 \<and>
   CreateDocument (plain (settings True NilValue NilValue))
     (users (replying (Response 202 (ArangoError 202 0 ''none'') (Inl (TransportError ''empty body''))
       (\<lambda>f. Inl (TransportError ''empty body'')) (Inl (TransportError ''empty body'')))))
     None (Value ''doc'') = ((DocumentMeta0, None), [\<lparr>written = False\<rparr>], []) \<and>
   UpdateDocument (plain (settings True NilValue NilValue))
     (users (replying (Response 202 (ArangoError 202 0 ''none'') (Inl (TransportError ''empty body''))
       (\<lambda>f. Inl (TransportError ''empty body'')) (Inl (TransportError ''empty body'')))))
     None ''k1'' (Value ''doc'') = ((DocumentMeta0, None), [\<lparr>written = False\<rparr>], []) \<and>
   ReplaceDocument (plain (settings True NilValue NilValue))
     (users (replying (Response 202 (ArangoError 202 0 ''none'') (Inl (TransportError ''empty body''))
       (\<lambda>f. Inl (TransportError ''empty body'')) (Inl (TransportError ''empty body'')))))
     None ''k1'' (Value ''doc'') = ((DocumentMeta0, None), [\<lparr>written = False\<rparr>], []) \<and>
   RemoveDocument (plain (settings True NilValue NilValue))
     (users (replying (Response 202 (ArangoError 202 0 ''none'') (Inl (TransportError ''empty body''))
       (\<lambda>f. Inl (TransportError ''empty body'')) (Inl (TransportError ''empty body'')))))
     None ''k1'' = ((DocumentMeta0, None), [\<lparr>written = False\<rparr>], []) \<and>
   CreateDocuments (plain (settings True NilValue NilValue))
     (users (replying (Response 202 (ArangoError 202 0 ''none'') (Inl (TransportError ''empty body''))
       (\<lambda>f. Inl (TransportError ''empty body'')) (Inl (TransportError ''empty body'')))))
     None (Values [''doc'']) = Some (([], [], None), [\<lparr>written = False\<rparr>], []) \<and>
   UpdateDocuments (plain (settings True NilValue NilValue))
     (users (replying (Response 202 (ArangoError 202 0 ''none'') (Inl (TransportError ''empty body''))
       (\<lambda>f. Inl (TransportError ''empty body'')) (Inl (TransportError ''empty body'')))))
     None (Some [''k1'']) (Values [''doc'']) = Some (([], [], None), [\<lparr>written = False\<rparr>], [])"
  using C8_silent_returns_zero_values
    [of "settings True NilValue NilValue" "plain (settings True NilValue NilValue)" None
        "\<lparr>written = False\<rparr>" "\<lparr>written = False\<rparr>" "Value ''doc''"
        "users (replying (Response 202 (ArangoError 202 0 ''none'') (Inl (TransportError ''empty body''))
       (\<lambda>f. Inl (TransportError ''empty body'')) (Inl (TransportError ''empty body''))))"
        "\<lparr>written = False\<rparr>"
        "Response 202 (ArangoError 202 0 ''none'') (Inl (TransportError ''empty body''))
       (\<lambda>f. Inl (TransportError ''empty body'')) (Inl (TransportError ''empty body''))"
        "\<lparr>written = True\<rparr>" "''k1''" "[''doc'']" "Some [''k1'']"
        "Some [[(''_key'', ''k1'')]]" "\<lparr>written = False\<rparr>"]
  by (simp add: ops_eval coll_eval coll_fixture_defs)

end
